theory Spec2Isabelle
  imports Main "HOL-Library.Word"
begin

section \<open>Job scheduler (server/src/queue_manager.c)\<close>

text \<open>
  The job queue of the server is a singly linked list of \<open>job_node_t\<close> with a head and a
  tail pointer, guarded by \<open>jobs_mutex\<close>. Every function below takes the mutex for the
  whole traversal, so each is one atomic step on the list; the list is modelled as a HOL
  list, head first. \<open>time(NULL)\<close> is the parameter \<open>now\<close>, and the result of an
  allocation is the parameter \<open>mem\<close> (\<open>True\<close> when \<open>malloc\<close> succeeds).

  Left out of \<open>job_info_t\<close>: the correlation id and the byte counts of the captured
  output. Left out of the server state: the statistics counters and the \<open>count\<close> field of
  the queue, which is the length of the list. \<open>reorder_queue_by_priority\<close> is not
  modelled: no function of the sources calls it, so it is on no path of the worker.
\<close>

type_synonym u32 = "32 word"
type_synonym u16 = "16 word"

datatype job_state_t =
    JOB_STATE_QUEUED
  | JOB_STATE_RUNNING
  | JOB_STATE_COMPLETED
  | JOB_STATE_FAILED
  | JOB_STATE_CANCELLED
  | JOB_STATE_TIMEOUT

record job_info_t =
  job_id :: u32
  client_id :: u32
  state :: job_state_t
  language :: u16
  mode :: u16
  submit_time :: int
  start_time :: int
  end_time :: int
  process_id :: int
  exit_code :: int
  source_file :: string
  output_file :: string
  error_file :: string
  compiler_args :: string
  execution_args :: string
  priority :: int

definition JOB_PRIORITY_LOW :: int where "JOB_PRIORITY_LOW = 1"
definition JOB_PRIORITY_NORMAL :: int where "JOB_PRIORITY_NORMAL = 5"
definition JOB_PRIORITY_HIGH :: int where "JOB_PRIORITY_HIGH = 10"

datatype signal_t = SIGTERM | SIGKILL

text \<open>\<open>strncpy(dst, src, n)\<close> into a zeroed buffer of \<open>n + 1\<close> bytes, read back as a C string.\<close>

definition strncpy_str :: "nat \<Rightarrow> string \<Rightarrow> string" where
  "strncpy_str n src = take n (takeWhile (\<lambda>c. c \<noteq> CHR 0x00) src)"

text \<open>\<open>add_job\<close>: the node is appended at the tail; the returned id is the job's own.\<close>

definition add_job :: "bool \<Rightarrow> job_info_t list \<Rightarrow> job_info_t \<Rightarrow> job_info_t list \<times> u32" where
  "add_job mem q job = (if \<not> mem then (q, 0) else (q @ [job], job_id job))"

text \<open>
  \<open>get_next_job\<close>: the head node is unlinked and freed; the caller receives a private copy
  of its job (or \<open>NULL\<close> when the copy cannot be allocated).
\<close>

fun get_next_job :: "bool \<Rightarrow> job_info_t list \<Rightarrow> job_info_t list \<times> job_info_t option" where
  "get_next_job mem [] = ([], None)"
| "get_next_job mem (node # rest) = (rest, if mem then Some node else None)"

fun find_job :: "job_info_t list \<Rightarrow> u32 \<Rightarrow> job_info_t option" where
  "find_job [] jid = None"
| "find_job (node # rest) jid = (if job_id node = jid then Some node else find_job rest jid)"

fun update_job_state :: "int \<Rightarrow> job_info_t list \<Rightarrow> u32 \<Rightarrow> job_state_t \<Rightarrow> job_info_t list" where
  "update_job_state now [] jid st = []"
| "update_job_state now (node # rest) jid st =
     (if job_id node = jid then
        (let n1 = node\<lparr>state := st\<rparr>;
             n2 = (if st = JOB_STATE_RUNNING then n1\<lparr>start_time := now\<rparr>
                   else if st = JOB_STATE_COMPLETED \<or> st = JOB_STATE_FAILED \<or> st = JOB_STATE_CANCELLED
                        then n1\<lparr>end_time := now\<rparr>
                   else n1)
         in n2 # rest)
      else node # update_job_state now rest jid st)"

text \<open>
  \<open>cancel_job\<close> returns the new list and the signals it sent with \<open>kill\<close>, as
  (pid, signal) pairs.
\<close>

fun cancel_job :: "int \<Rightarrow> job_info_t list \<Rightarrow> u32 \<Rightarrow> job_info_t list \<times> (int \<times> signal_t) list" where
  "cancel_job now [] jid = ([], [])"
| "cancel_job now (node # rest) jid =
     (if job_id node = jid then
        (node\<lparr>state := JOB_STATE_CANCELLED, end_time := now\<rparr> # rest,
         if process_id node > 0 \<and> state node = JOB_STATE_RUNNING then [(process_id node, SIGTERM)] else [])
      else (let (rest', sigs) = cancel_job now rest jid in (node # rest', sigs)))"

fun complete_job :: "int \<Rightarrow> job_info_t list \<Rightarrow> u32 \<Rightarrow> int \<Rightarrow> string option \<Rightarrow> string option \<Rightarrow> job_info_t list" where
  "complete_job now [] jid ec outf errf = []"
| "complete_job now (node # rest) jid ec outf errf =
     (if job_id node = jid then
        (let n1 = node\<lparr>state := (if ec = 0 then JOB_STATE_COMPLETED else JOB_STATE_FAILED),
                        exit_code := ec, end_time := now\<rparr>;
             n2 = (case outf of None \<Rightarrow> n1 | Some f \<Rightarrow> n1\<lparr>output_file := strncpy_str 255 f\<rparr>);
             n3 = (case errf of None \<Rightarrow> n2 | Some f \<Rightarrow> n2\<lparr>error_file := strncpy_str 255 f\<rparr>)
         in n3 # rest)
      else node # complete_job now rest jid ec outf errf)"

definition MAX_COMPLETED_JOB_AGE :: int where "MAX_COMPLETED_JOB_AGE = 3600"

fun cleanup_completed_jobs :: "int \<Rightarrow> job_info_t list \<Rightarrow> job_info_t list" where
  "cleanup_completed_jobs now [] = []"
| "cleanup_completed_jobs now (node # rest) =
     (if (state node = JOB_STATE_COMPLETED \<or> state node = JOB_STATE_FAILED \<or> state node = JOB_STATE_CANCELLED)
         \<and> now - end_time node > MAX_COMPLETED_JOB_AGE
      then cleanup_completed_jobs now rest
      else node # cleanup_completed_jobs now rest)"

text \<open>\<open>cancel_client_jobs\<close> returns the list, the signals sent and the number cancelled.\<close>

fun cancel_client_jobs :: "int \<Rightarrow> job_info_t list \<Rightarrow> u32 \<Rightarrow> job_info_t list \<times> (int \<times> signal_t) list \<times> int" where
  "cancel_client_jobs now [] cid = ([], [], 0)"
| "cancel_client_jobs now (node # rest) cid =
     (let (rest', sigs, cnt) = cancel_client_jobs now rest cid in
      if client_id node = cid \<and> (state node = JOB_STATE_QUEUED \<or> state node = JOB_STATE_RUNNING) then
        (node\<lparr>state := JOB_STATE_CANCELLED, end_time := now\<rparr> # rest',
         (if process_id node > 0 \<and> state node = JOB_STATE_RUNNING then [(process_id node, SIGTERM)] else []) @ sigs,
         cnt + 1)
      else (node # rest', sigs, cnt))"

fun set_priority_loop :: "job_info_t list \<Rightarrow> u32 \<Rightarrow> int \<Rightarrow> job_info_t list \<times> int" where
  "set_priority_loop [] jid p = ([], -1)"
| "set_priority_loop (node # rest) jid p =
     (if job_id node = jid then (node\<lparr>priority := p\<rparr> # rest, 0)
      else (let (rest', rc) = set_priority_loop rest jid p in (node # rest', rc)))"

definition set_job_priority :: "job_info_t list \<Rightarrow> u32 \<Rightarrow> int \<Rightarrow> job_info_t list \<times> int" where
  "set_job_priority q jid p =
     (if p < JOB_PRIORITY_LOW \<or> p > JOB_PRIORITY_HIGH then (q, -1) else set_priority_loop q jid p)"

text \<open>
  \<open>generate_job_id\<close>: the static counter \<open>next_id\<close> (initially 1) is the state; the result
  is the id handed out and the new counter. The increment is the \<open>uint32_t\<close> one.
\<close>

definition generate_job_id :: "u32 \<Rightarrow> u32 \<times> u32" where
  "generate_job_id next_id =
     (let ident = next_id; n = next_id + 1 in (ident, if n = 0 then 1 else n))"

definition next_id_init :: u32 where "next_id_init = 1"

text \<open>The counter before the \<open>n\<close>-th call (counting from 0), and the id that call returns.\<close>

fun next_id_after :: "nat \<Rightarrow> u32" where
  "next_id_after 0 = next_id_init"
| "next_id_after (Suc n) = snd (generate_job_id (next_id_after n))"

definition nth_job_id :: "nat \<Rightarrow> u32" where
  "nth_job_id n = fst (generate_job_id (next_id_after n))"

section \<open>Executor (server/src/compiler_service.c)\<close>

definition MAX_COMPILATION_TIME :: int where "MAX_COMPILATION_TIME = 300"
definition MAX_EXECUTION_TIME :: int where "MAX_EXECUTION_TIME = 60"
definition MAX_COMPILER_OUTPUT :: nat where "MAX_COMPILER_OUTPUT = 8192"

text \<open>
  What the operating system answers during one run of \<open>execute_command_with_timeout\<close>:
  whether \<open>pipe\<close> and \<open>fork\<close> succeed, the clock when the loop starts, the outcome of
  each \<open>select\<close> call in order, and what \<open>waitpid\<close> reports. A \<open>select\<close> that expires
  (result 0) carries the value of \<open>time(NULL)\<close> read right after it; a \<open>select\<close> with
  ready descriptors carries, for stdout and for stderr, whether the descriptor is ready and
  how many bytes its \<open>read\<close> has to offer (0 at end of file, negative on error).
\<close>

datatype select_result =
    SEL_EINTR
  | SEL_ERROR
  | SEL_EXPIRED int
  | SEL_READY bool bool int int

datatype wait_status = WEXITED int | WSIGNALED int | WSTOPPED

record cmd_env =
  pipe_ok :: bool
  fork_ok :: bool
  start_clock :: int
  selects :: "select_result list"
  wait_result :: "wait_status option"

definition read_pipe :: "bool \<Rightarrow> int \<Rightarrow> nat \<Rightarrow> nat \<Rightarrow> nat" where
  "read_pipe ready avail bufsize pos =
     (if ready \<and> pos < bufsize - 1 then
        (let bytes_read = min avail (int (bufsize - pos - 1)) in
         if bytes_read > 0 then pos + nat bytes_read else pos)
      else pos)"

text \<open>
  The read loop. It returns \<open>Some (timed_out, output_pos, error_pos)\<close> when the loop is
  left, and \<open>None\<close> when the recorded \<open>select\<close> outcomes end with the loop still running.
  The buffer sizes are those of the callers' arrays (at least 1).
\<close>

fun read_loop :: "select_result list \<Rightarrow> int \<Rightarrow> int \<Rightarrow> nat \<Rightarrow> nat \<Rightarrow> nat \<Rightarrow> nat \<Rightarrow> (bool \<times> nat \<times> nat) option" where
  "read_loop [] start timeout osz esz opos epos =
     (if \<not> (opos < osz - 1 \<or> epos < esz - 1) then Some (False, opos, epos) else None)"
| "read_loop (ev # rest) start timeout osz esz opos epos =
     (if \<not> (opos < osz - 1 \<or> epos < esz - 1) then Some (False, opos, epos)
      else (case ev of
              SEL_EINTR \<Rightarrow> read_loop rest start timeout osz esz opos epos
            | SEL_ERROR \<Rightarrow> Some (False, opos, epos)
            | SEL_EXPIRED now \<Rightarrow>
                (if now - start \<ge> timeout then Some (True, opos, epos)
                 else read_loop rest start timeout osz esz opos epos)
            | SEL_READY ro re ao ae \<Rightarrow>
                read_loop rest start timeout osz esz (read_pipe ro ao osz opos) (read_pipe re ae esz epos)))"

text \<open>
  The result of one command: the value returned, whether a child was forked, and whether
  the child was sent \<open>SIGKILL\<close>.
\<close>

record cmd_result =
  ret :: int
  launched :: bool
  killed :: bool

definition execute_command_with_timeout :: "cmd_env \<Rightarrow> nat \<Rightarrow> nat \<Rightarrow> int \<Rightarrow> cmd_result option" where
  "execute_command_with_timeout env osz esz timeout =
     (if \<not> pipe_ok env then Some \<lparr>ret = -1, launched = False, killed = False\<rparr>
      else if \<not> fork_ok env then Some \<lparr>ret = -1, launched = False, killed = False\<rparr>
      else (case read_loop (selects env) (start_clock env) timeout osz esz 0 0 of
              None \<Rightarrow> None
            | Some (timed_out, opos, epos) \<Rightarrow>
                (if timed_out then Some \<lparr>ret = 124, launched = True, killed = True\<rparr>
                 else (case wait_result env of
                         None \<Rightarrow> Some \<lparr>ret = -1, launched = True, killed = False\<rparr>
                       | Some (WEXITED c) \<Rightarrow> Some \<lparr>ret = c, launched = True, killed = False\<rparr>
                       | Some (WSIGNALED sg) \<Rightarrow> Some \<lparr>ret = 128 + sg, launched = True, killed = False\<rparr>
                       | Some WSTOPPED \<Rightarrow> Some \<lparr>ret = -1, launched = True, killed = False\<rparr>))))"

datatype compile_status_t =
    COMPILE_STATUS_PENDING
  | COMPILE_STATUS_COMPILING
  | COMPILE_STATUS_COMPILED
  | COMPILE_STATUS_RUNNING
  | COMPILE_STATUS_COMPLETED
  | COMPILE_STATUS_FAILED
  | COMPILE_STATUS_TIMEOUT
  | COMPILE_STATUS_CANCELLED

record compilation_job_t =
  cj_job_id :: u32
  cj_client_id :: u32
  cj_compiler_type :: u16
  cj_exec_mode :: u16
  cj_status :: compile_status_t
  cj_source_file :: string
  cj_executable_file :: string
  cj_output_file :: string
  cj_error_file :: string
  cj_compile_pid :: int
  cj_exec_pid :: int
  cj_compile_exit_code :: int
  cj_exec_exit_code :: int

definition create_compilation_job :: "u32 \<Rightarrow> u32 \<Rightarrow> compilation_job_t" where
  "create_compilation_job jid cid =
     \<lparr>cj_job_id = jid, cj_client_id = cid, cj_compiler_type = 0, cj_exec_mode = 0,
      cj_status = COMPILE_STATUS_PENDING, cj_source_file = [], cj_executable_file = [],
      cj_output_file = [], cj_error_file = [], cj_compile_pid = -1, cj_exec_pid = -1,
      cj_compile_exit_code = 0, cj_exec_exit_code = 0\<rparr>"

text \<open>
  The compiler registry \<open>g_compilers\<close>, by its entries' type and availability (names,
  paths and default arguments are left out). The compiler types are the values of
  \<open>compiler_type_t\<close>.
\<close>

definition COMPILER_C :: u16 where "COMPILER_C = 1"
definition COMPILER_CPP :: u16 where "COMPILER_CPP = 2"
definition COMPILER_JAVA :: u16 where "COMPILER_JAVA = 3"
definition COMPILER_PYTHON :: u16 where "COMPILER_PYTHON = 4"
definition COMPILER_JAVASCRIPT :: u16 where "COMPILER_JAVASCRIPT = 5"
definition COMPILER_GO :: u16 where "COMPILER_GO = 6"
definition COMPILER_RUST :: u16 where "COMPILER_RUST = 7"

record compiler_info_t =
  ci_type :: u16
  ci_available :: bool

fun get_compiler_by_type :: "compiler_info_t list \<Rightarrow> u16 \<Rightarrow> compiler_info_t option" where
  "get_compiler_by_type [] ty = None"
| "get_compiler_by_type (c # rest) ty =
     (if ci_type c = ty \<and> ci_available c then Some c else get_compiler_by_type rest ty)"

text \<open>
  The environment of one job: whether the compilation job can be allocated, the compiler
  registry, whether the sandbox directory can be made, which file names \<open>access\<close> finds
  readable, whether the buffer of a command string can be allocated, and the answers of the
  operating system to the compile command and to the run command. The steps
  \<open>interpret_source_code\<close> and \<open>syntax_check_only\<close> are declared in compiler.h and
  defined nowhere in the sources at hand; they are parameters.
\<close>

record job_env =
  comp_alloc :: bool
  registry :: "compiler_info_t list"
  sandbox_ok :: bool
  readable :: "string \<Rightarrow> bool"
  cmd_alloc :: bool
  compile_run :: cmd_env
  exec_run :: cmd_env
  interpret_source_code :: "compilation_job_t \<Rightarrow> int \<times> compilation_job_t"
  syntax_check_only :: "compilation_job_t \<Rightarrow> int \<times> compilation_job_t"
  clock_begin :: int
  clock_end :: int

text \<open>
  \<open>build_compile_command\<close> and \<open>build_execute_command\<close>: \<open>True\<close> when a command string
  is returned, \<open>False\<close> for \<open>NULL\<close>. The text of the command is left out.
\<close>

definition build_compile_command :: "job_env \<Rightarrow> compilation_job_t \<Rightarrow> bool" where
  "build_compile_command env job =
     (if get_compiler_by_type (registry env) (cj_compiler_type job) = None then False
      else if \<not> cmd_alloc env then False
      else if cj_compiler_type job = COMPILER_C \<or> cj_compiler_type job = COMPILER_CPP then True
      else if cj_compiler_type job = COMPILER_JAVA then True
      else if cj_compiler_type job = COMPILER_GO then True
      else if cj_compiler_type job = COMPILER_RUST then True
      else False)"

definition build_execute_command :: "job_env \<Rightarrow> compilation_job_t \<Rightarrow> bool" where
  "build_execute_command env job =
     (if get_compiler_by_type (registry env) (cj_compiler_type job) = None then False
      else if \<not> cmd_alloc env then False
      else if cj_compiler_type job = COMPILER_C \<or> cj_compiler_type job = COMPILER_CPP
              \<or> cj_compiler_type job = COMPILER_GO \<or> cj_compiler_type job = COMPILER_RUST then True
      else if cj_compiler_type job = COMPILER_JAVA then True
      else if cj_compiler_type job = COMPILER_PYTHON then True
      else if cj_compiler_type job = COMPILER_JAVASCRIPT then True
      else False)"

datatype step_t = STEP_COMPILE u32 | STEP_EXECUTE u32

text \<open>
  \<open>compile_source_code\<close> and \<open>execute_compiled_program\<close> return the C result, the updated
  compilation job, and the commands for which a child process was started.
  \<open>validate_source_content\<close> is the \<open>access\<close> test of the job's source file name.
\<close>

definition compile_source_code :: "job_env \<Rightarrow> compilation_job_t \<Rightarrow> (int \<times> compilation_job_t \<times> step_t list) option" where
  "compile_source_code env job =
     (let j1 = job\<lparr>cj_status := COMPILE_STATUS_COMPILING\<rparr> in
      if get_compiler_by_type (registry env) (cj_compiler_type job) = None then
        Some (-1, j1\<lparr>cj_status := COMPILE_STATUS_FAILED\<rparr>, [])
      else if \<not> sandbox_ok env then Some (-1, j1\<lparr>cj_status := COMPILE_STATUS_FAILED\<rparr>, [])
      else if \<not> readable env (cj_source_file job) then Some (-1, j1\<lparr>cj_status := COMPILE_STATUS_FAILED\<rparr>, [])
      else if \<not> build_compile_command env job then Some (-1, j1\<lparr>cj_status := COMPILE_STATUS_FAILED\<rparr>, [])
      else (case execute_command_with_timeout (compile_run env) MAX_COMPILER_OUTPUT MAX_COMPILER_OUTPUT
                   MAX_COMPILATION_TIME of
              None \<Rightarrow> None
            | Some r \<Rightarrow>
                (let j2 = j1\<lparr>cj_compile_exit_code := ret r\<rparr>;
                     steps = (if launched r then [STEP_COMPILE (cj_job_id job)] else [])
                 in if ret r = 0 then Some (0, j2\<lparr>cj_status := COMPILE_STATUS_COMPILED\<rparr>, steps)
                    else Some (-1, j2\<lparr>cj_status := COMPILE_STATUS_FAILED\<rparr>, steps))))"

definition execute_compiled_program :: "job_env \<Rightarrow> compilation_job_t \<Rightarrow> (int \<times> compilation_job_t \<times> step_t list) option" where
  "execute_compiled_program env job =
     (if cj_status job \<noteq> COMPILE_STATUS_COMPILED then Some (-1, job, [])
      else (let j1 = job\<lparr>cj_status := COMPILE_STATUS_RUNNING\<rparr> in
            if \<not> build_execute_command env job then Some (-1, j1\<lparr>cj_status := COMPILE_STATUS_FAILED\<rparr>, [])
            else (case execute_command_with_timeout (exec_run env) MAX_COMPILER_OUTPUT MAX_COMPILER_OUTPUT
                         MAX_EXECUTION_TIME of
                    None \<Rightarrow> None
                  | Some r \<Rightarrow>
                      (let j2 = j1\<lparr>cj_exec_exit_code := ret r\<rparr>;
                           steps = (if launched r then [STEP_EXECUTE (cj_job_id job)] else [])
                       in if ret r = 0 then Some (0, j2\<lparr>cj_status := COMPILE_STATUS_COMPLETED\<rparr>, steps)
                          else Some (-1, j2\<lparr>cj_status := COMPILE_STATUS_FAILED\<rparr>, steps)))))"

text \<open>
  The timeouts that server.h defines and \<open>initialize_server\<close> (server/src/server.c) stores
  in the configuration: it assigns \<open>compile_timeout\<close> and leaves \<open>execution_timeout\<close> at
  the 0 of its \<open>memset\<close>. The executor above takes no configuration.
\<close>

definition COMPILE_TIMEOUT :: int where "COMPILE_TIMEOUT = 60"
definition EXECUTION_TIMEOUT :: int where "EXECUTION_TIMEOUT = 30"

record server_config_t =
  compile_timeout :: int
  execution_timeout :: int

definition initialize_server :: server_config_t where
  "initialize_server = \<lparr>compile_timeout = COMPILE_TIMEOUT, execution_timeout = 0\<rparr>"

section \<open>The worker (server/src/queue_manager.c)\<close>

text \<open>
  \<open>process_compilation_job\<close> works on the private copy \<open>job\<close> that \<open>get_next_job\<close>
  returned, and reports to the queue through \<open>update_job_state\<close> and \<open>complete_job\<close>.
  \<open>basename\<close> returns a pointer into \<open>comp_job->source_file\<close> (after the last slash),
  and the write of a NUL at the last dot behind it cuts that field in place:
  \<open>cut_extension\<close> is the field afterwards, \<open>c_basename\<close> of it the stem. The result is
  the C return value, the queue, the private copy, and the commands for which a child process
  was started.
\<close>

definition snprintf_str :: "nat \<Rightarrow> string \<Rightarrow> string" where
  "snprintf_str n str = take (n - 1) str"

definition c_basename :: "string \<Rightarrow> string" where
  "c_basename path = rev (takeWhile (\<lambda>c. c \<noteq> CHR ''/'') (rev path))"

definition cut_extension :: "string \<Rightarrow> string" where
  "cut_extension path =
     (if CHR ''.'' \<in> set (c_basename path)
      then rev (tl (dropWhile (\<lambda>c. c \<noteq> CHR ''.'') (rev path)))
      else path)"

definition run_mode :: "job_env \<Rightarrow> compilation_job_t \<Rightarrow> (int \<times> compilation_job_t \<times> step_t list) option" where
  "run_mode env cj =
     (if cj_exec_mode cj = 0 then compile_source_code env cj
      else if cj_exec_mode cj = 1 then
        (case compile_source_code env cj of
           None \<Rightarrow> None
         | Some (r, cj', steps) \<Rightarrow>
             (if r = 0 then
                (case execute_compiled_program env cj' of
                   None \<Rightarrow> None
                 | Some (r2, cj2, steps2) \<Rightarrow> Some (r2, cj2, steps @ steps2))
              else Some (r, cj', steps)))
      else if cj_exec_mode cj = 2 then
        (let (r, cj') = interpret_source_code env cj in Some (r, cj', []))
      else if cj_exec_mode cj = 3 then
        (let (r, cj') = syntax_check_only env cj in Some (r, cj', []))
      else Some (-1, cj, []))"

definition process_compilation_job ::
  "job_env \<Rightarrow> job_info_t list \<Rightarrow> job_info_t
     \<Rightarrow> (int \<times> job_info_t list \<times> job_info_t \<times> step_t list) option" where
  "process_compilation_job env q job =
     (let q1 = update_job_state (clock_begin env) q (job_id job) JOB_STATE_RUNNING in
      if \<not> comp_alloc env then
        Some (-1, update_job_state (clock_begin env) q1 (job_id job) JOB_STATE_FAILED, job, [])
      else
        (let cj0 = (create_compilation_job (job_id job) (client_id job))
                     \<lparr>cj_compiler_type := language job, cj_exec_mode := mode job,
                      cj_source_file := cut_extension (strncpy_str 255 (source_file job))\<rparr>;
             source_name = c_basename (cj_source_file cj0);
             cj1 = cj0\<lparr>cj_executable_file := snprintf_str 256 (source_name @ ''_exe''),
                       cj_output_file := snprintf_str 256 (source_name @ ''_output.txt''),
                       cj_error_file := snprintf_str 256 (source_name @ ''_error.txt'')\<rparr>
         in case run_mode env cj1 of
              None \<Rightarrow> None
            | Some (result, cj2, steps) \<Rightarrow>
                (let job' = job\<lparr>exit_code := cj_exec_exit_code cj2, process_id := cj_exec_pid cj2,
                                 output_file := strncpy_str 255 (cj_output_file cj2),
                                 error_file := strncpy_str 255 (cj_error_file cj2)\<rparr>;
                     q2 = (if result = 0 then
                             complete_job (clock_end env) q1 (job_id job) 0
                               (Some (cj_output_file cj2)) (Some (cj_error_file cj2))
                           else
                             complete_job (clock_end env) q1 (job_id job)
                               (if cj_compile_exit_code cj2 \<noteq> 0 then cj_compile_exit_code cj2
                                else cj_exec_exit_code cj2)
                               None (Some (cj_error_file cj2)))
                 in Some (result, q2, job', steps))))"

text \<open>
  One iteration of the loop of \<open>job_processor_thread\<close>: take the next job and, if there is
  one, process it. The result is the queue, the job processed (if any) and the commands
  started for it.
\<close>

definition job_processor_step ::
  "bool \<Rightarrow> job_env \<Rightarrow> job_info_t list
     \<Rightarrow> (job_info_t list \<times> job_info_t option \<times> step_t list) option" where
  "job_processor_step mem env q =
     (case get_next_job mem q of
        (q1, None) \<Rightarrow> Some (q1, None, [])
      | (q1, Some job) \<Rightarrow>
          (case process_compilation_job env q1 job of
             None \<Rightarrow> None
           | Some (result, q2, job', steps) \<Rightarrow> Some (q2, Some job', steps)))"

section \<open>Wire messages (common/protocol.h)\<close>

text \<open>
  A header is modelled after \<open>header_from_network\<close>, as the record of its fields. A payload
  is the received character buffer; the handlers read it through packed structs, with no
  byte-order conversion, and the model reads the fields at the same offsets, integers in the
  little-endian order of the host.
\<close>

definition PROTOCOL_MAGIC :: u32 where "PROTOCOL_MAGIC = 0x43434545"
definition MAX_MESSAGE_SIZE :: nat where "MAX_MESSAGE_SIZE = 16 * 1024 * 1024"

definition MSG_HELLO :: u16 where "MSG_HELLO = 1"
definition MSG_FILE_UPLOAD_START :: u16 where "MSG_FILE_UPLOAD_START = 2"
definition MSG_FILE_UPLOAD_CHUNK :: u16 where "MSG_FILE_UPLOAD_CHUNK = 3"
definition MSG_FILE_UPLOAD_END :: u16 where "MSG_FILE_UPLOAD_END = 4"
definition MSG_COMPILE_REQUEST :: u16 where "MSG_COMPILE_REQUEST = 5"
definition MSG_STATUS_REQUEST :: u16 where "MSG_STATUS_REQUEST = 6"
definition MSG_RESULT_REQUEST :: u16 where "MSG_RESULT_REQUEST = 7"
definition MSG_PING :: u16 where "MSG_PING = 8"
definition MSG_ACK :: u16 where "MSG_ACK = 100"
definition MSG_ERROR :: u16 where "MSG_ERROR = 102"
definition MSG_COMPILE_RESPONSE :: u16 where "MSG_COMPILE_RESPONSE = 103"
definition MSG_STATUS_RESPONSE :: u16 where "MSG_STATUS_RESPONSE = 104"
definition MSG_RESULT_RESPONSE :: u16 where "MSG_RESULT_RESPONSE = 105"
definition MSG_PONG :: u16 where "MSG_PONG = 106"

definition ERROR_INVALID_ARGUMENT :: u32 where "ERROR_INVALID_ARGUMENT = 1"
definition ERROR_PERMISSION :: u32 where "ERROR_PERMISSION = 2"
definition ERROR_NOT_FOUND :: u32 where "ERROR_NOT_FOUND = 3"
definition ERROR_QUOTA_EXCEEDED :: u32 where "ERROR_QUOTA_EXCEEDED = 4"
definition ERROR_INTERNAL :: u32 where "ERROR_INTERNAL = 6"

definition JOB_STATUS_QUEUED :: u16 where "JOB_STATUS_QUEUED = 0"

record message_header_t =
  magic :: u32
  message_type :: u16
  flags :: u16
  data_length :: u32
  correlation_id :: u32
  timestamp :: "64 word"
  checksum :: u32

record message_t =
  header :: message_header_t
  data :: string

definition sizeof_message_header_t :: nat where "sizeof_message_header_t = 28"
definition sizeof_hello_payload_t :: nat where "sizeof_hello_payload_t = 104"
definition sizeof_file_upload_start_t :: nat where "sizeof_file_upload_start_t = 276"
definition sizeof_file_chunk_t :: nat where "sizeof_file_chunk_t = 12"
definition sizeof_compile_request_t :: nat where "sizeof_compile_request_t = 2312"
definition sizeof_compile_response_t :: nat where "sizeof_compile_response_t = 24"
definition sizeof_job_status_payload_t :: nat where "sizeof_job_status_payload_t = 284"
definition sizeof_error_payload_t :: nat where "sizeof_error_payload_t = 4360"

definition le_nat :: "string \<Rightarrow> nat" where
  "le_nat cs = foldr (\<lambda>c acc. of_char c + 256 * acc) cs 0"

definition u16_at :: "string \<Rightarrow> nat \<Rightarrow> u16" where
  "u16_at d off = word_of_nat (le_nat (take 2 (drop off d)))"

definition u32_at :: "string \<Rightarrow> nat \<Rightarrow> u32" where
  "u32_at d off = word_of_nat (le_nat (take 4 (drop off d)))"

definition u64_at :: "string \<Rightarrow> nat \<Rightarrow> nat" where
  "u64_at d off = le_nat (take 8 (drop off d))"

text \<open>The characters that \<open>strncpy(dst, field, n)\<close> copies from the field at \<open>off\<close>.\<close>

definition cstr_at :: "string \<Rightarrow> nat \<Rightarrow> nat \<Rightarrow> string" where
  "cstr_at d off n = strncpy_str n (drop off d)"

text \<open>
  What the server writes to a socket, one entry for each \<open>send\<close> that succeeds: a header
  (its message type, data length and correlation id) or the payload that follows it.
\<close>

datatype payload_t =
    NO_PAYLOAD
  | HELLO_PAYLOAD u16 u16 u16 u16 string string
  | ERROR_PAYLOAD u32 string
  | COMPILE_RESPONSE u32 u16 int u32
  | JOB_STATUS_PAYLOAD u32 u16 u16 int int int

datatype sent_t = SENT_HEADER u16 nat u32 | SENT_PAYLOAD payload_t

section \<open>Client sessions (server/src/client_handler.c)\<close>

datatype client_state_t =
    CLIENT_STATE_CONNECTING
  | CLIENT_STATE_AUTHENTICATED
  | CLIENT_STATE_IDLE
  | CLIENT_STATE_UPLOADING
  | CLIENT_STATE_PROCESSING
  | CLIENT_STATE_DISCONNECTING

record client_info_t =
  socket_open :: bool
  cl_client_id :: u32
  cl_state :: client_state_t
  last_activity :: int
  client_name :: string
  client_platform :: string
  active_jobs :: u32
  bytes_sent :: nat
  bytes_received :: nat

text \<open>
  The part of \<open>g_server\<close> that the session handlers read or write: the job queue, the
  counter of \<open>generate_job_id\<close>, the configured \<open>max_file_size\<close>, and the files under the
  processing directory, by name.
\<close>

record server_t =
  job_queue :: "job_info_t list"
  next_id :: u32
  max_file_size :: nat
  files :: "string \<rightharpoonup> string"

text \<open>
  \<open>send_client_response\<close> sends the header and then, if there is one, the payload.
  \<open>tx\<close> tells how the socket takes the two \<open>send\<close> calls of one response. The result is
  the return value, the client record and what was written.
\<close>

datatype tx_t = TX_OK | TX_HEADER_FAILS | TX_PAYLOAD_FAILS

definition send_client_response ::
  "tx_t \<Rightarrow> client_info_t \<Rightarrow> u16 \<Rightarrow> payload_t \<Rightarrow> nat \<Rightarrow> u32 \<Rightarrow> int \<times> client_info_t \<times> sent_t list" where
  "send_client_response tx client ty payload data_size corr =
     (if tx = TX_HEADER_FAILS then (-1, client, [])
      else
        (let c1 = client\<lparr>bytes_sent := bytes_sent client + sizeof_message_header_t\<rparr> in
         if data_size > 0 \<and> payload \<noteq> NO_PAYLOAD then
           (if tx = TX_PAYLOAD_FAILS then (-1, c1, [SENT_HEADER ty data_size corr])
            else (0, c1\<lparr>bytes_sent := bytes_sent c1 + data_size\<rparr>,
                  [SENT_HEADER ty data_size corr, SENT_PAYLOAD payload]))
         else (0, c1, [SENT_HEADER ty data_size corr])))"

definition send_client_error ::
  "tx_t \<Rightarrow> client_info_t \<Rightarrow> u32 \<Rightarrow> string \<Rightarrow> u32 \<Rightarrow> int \<times> client_info_t \<times> sent_t list" where
  "send_client_error tx client code msg corr =
     send_client_response tx client MSG_ERROR (ERROR_PAYLOAD code (strncpy_str 4095 msg))
       sizeof_error_payload_t corr"

text \<open>
  Every handler returns the C return value, the client record, the server state and the
  responses written.
\<close>

type_synonym handled = "int \<times> client_info_t \<times> server_t \<times> sent_t list"

definition with_server :: "server_t \<Rightarrow> int \<times> client_info_t \<times> sent_t list \<Rightarrow> handled" where
  "with_server s r = (case r of (rc, c, out) \<Rightarrow> (rc, c, s, out))"

definition handle_hello_message :: "tx_t \<Rightarrow> server_t \<Rightarrow> client_info_t \<Rightarrow> message_t \<Rightarrow> handled" where
  "handle_hello_message tx s client msg =
     (if unat (data_length (header msg)) < sizeof_hello_payload_t then
        with_server s (send_client_error tx client ERROR_INVALID_ARGUMENT ''Invalid hello payload''
                         (correlation_id (header msg)))
      else
        (let c1 = client\<lparr>client_name := cstr_at (data msg) 8 63,
                          client_platform := cstr_at (data msg) 72 31,
                          cl_state := CLIENT_STATE_AUTHENTICATED\<rparr>
         in with_server s
              (send_client_response tx c1 MSG_HELLO
                 (HELLO_PAYLOAD 1 0 0 0 ''Code Compiler & Executer Server'' ''Linux'')
                 sizeof_hello_payload_t (correlation_id (header msg)))))"

definition handle_file_upload_start :: "tx_t \<Rightarrow> server_t \<Rightarrow> client_info_t \<Rightarrow> message_t \<Rightarrow> handled" where
  "handle_file_upload_start tx s client msg =
     (if cl_state client \<noteq> CLIENT_STATE_AUTHENTICATED \<and> cl_state client \<noteq> CLIENT_STATE_IDLE then
        with_server s (send_client_error tx client ERROR_PERMISSION ''Not authenticated''
                         (correlation_id (header msg)))
      else if unat (data_length (header msg)) < sizeof_file_upload_start_t then
        with_server s (send_client_error tx client ERROR_INVALID_ARGUMENT ''Invalid upload start payload''
                         (correlation_id (header msg)))
      else if u64_at (data msg) 0 > max_file_size s then
        with_server s (send_client_error tx client ERROR_QUOTA_EXCEEDED ''File too large''
                         (correlation_id (header msg)))
      else
        with_server s
          (send_client_response tx (client\<lparr>cl_state := CLIENT_STATE_UPLOADING\<rparr>) MSG_ACK NO_PAYLOAD 0
             (correlation_id (header msg))))"

definition handle_file_upload_chunk :: "tx_t \<Rightarrow> server_t \<Rightarrow> client_info_t \<Rightarrow> message_t \<Rightarrow> handled" where
  "handle_file_upload_chunk tx s client msg =
     (if cl_state client \<noteq> CLIENT_STATE_UPLOADING then
        with_server s (send_client_error tx client ERROR_PERMISSION ''Not in upload mode''
                         (correlation_id (header msg)))
      else if unat (data_length (header msg)) < sizeof_file_chunk_t then
        with_server s (send_client_error tx client ERROR_INVALID_ARGUMENT ''Invalid chunk payload''
                         (correlation_id (header msg)))
      else if unat (u32_at (data msg) 4) \<noteq> unat (data_length (header msg)) - sizeof_file_chunk_t then
        with_server s (send_client_error tx client ERROR_INVALID_ARGUMENT ''Chunk size mismatch''
                         (correlation_id (header msg)))
      else
        with_server s (send_client_response tx client MSG_ACK NO_PAYLOAD 0 (correlation_id (header msg))))"

definition handle_file_upload_end :: "tx_t \<Rightarrow> server_t \<Rightarrow> client_info_t \<Rightarrow> message_t \<Rightarrow> handled" where
  "handle_file_upload_end tx s client msg =
     (if cl_state client \<noteq> CLIENT_STATE_UPLOADING then
        with_server s (send_client_error tx client ERROR_PERMISSION ''Not in upload mode''
                         (correlation_id (header msg)))
      else
        with_server s
          (send_client_response tx (client\<lparr>cl_state := CLIENT_STATE_IDLE\<rparr>) MSG_ACK NO_PAYLOAD 0
             (correlation_id (header msg))))"

fun job_state_code :: "job_state_t \<Rightarrow> u16" where
  "job_state_code JOB_STATE_QUEUED = 0"
| "job_state_code JOB_STATE_RUNNING = 1"
| "job_state_code JOB_STATE_COMPLETED = 2"
| "job_state_code JOB_STATE_FAILED = 3"
| "job_state_code JOB_STATE_CANCELLED = 4"
| "job_state_code JOB_STATE_TIMEOUT = 5"

text \<open>
  \<open>handle_compile_request\<close>: \<open>mem\<close> is the allocation of the queue node in \<open>add_job\<close>,
  \<open>now\<close> the submission time.
\<close>

definition handle_compile_request ::
  "bool \<Rightarrow> int \<Rightarrow> tx_t \<Rightarrow> server_t \<Rightarrow> client_info_t \<Rightarrow> message_t \<Rightarrow> handled" where
  "handle_compile_request mem now tx s client msg =
     (if cl_state client \<noteq> CLIENT_STATE_IDLE then
        with_server s (send_client_error tx client ERROR_PERMISSION ''Client not ready''
                         (correlation_id (header msg)))
      else if unat (data_length (header msg)) < sizeof_compile_request_t then
        with_server s (send_client_error tx client ERROR_INVALID_ARGUMENT ''Invalid compile request payload''
                         (correlation_id (header msg)))
      else
        (let (jid, nid) = generate_job_id (next_id s);
             job = \<lparr>job_id = jid, client_id = cl_client_id client, state = JOB_STATE_QUEUED,
                    language = u16_at (data msg) 0, mode = u16_at (data msg) 2,
                    submit_time = now, start_time = 0, end_time = 0, process_id = 0, exit_code = 0,
                    source_file = cstr_at (data msg) 8 255, output_file = [], error_file = [],
                    compiler_args = cstr_at (data msg) 264 1023,
                    execution_args = cstr_at (data msg) 1288 1023,
                    priority = JOB_PRIORITY_NORMAL\<rparr>;
             (q, added) = add_job mem (job_queue s) job;
             s1 = s\<lparr>job_queue := q, next_id := nid\<rparr>
         in if added = 0 then
              with_server s1 (send_client_error tx client ERROR_INTERNAL ''Failed to queue job''
                                (correlation_id (header msg)))
            else
              with_server s1
                (send_client_response tx
                   (client\<lparr>cl_state := CLIENT_STATE_PROCESSING, active_jobs := active_jobs client + 1\<rparr>)
                   MSG_COMPILE_RESPONSE (COMPILE_RESPONSE added JOB_STATUS_QUEUED 0 0)
                   sizeof_compile_response_t (correlation_id (header msg)))))"

definition handle_status_request :: "tx_t \<Rightarrow> server_t \<Rightarrow> client_info_t \<Rightarrow> message_t \<Rightarrow> handled" where
  "handle_status_request tx s client msg =
     (if unat (data_length (header msg)) < 4 then
        with_server s (send_client_error tx client ERROR_INVALID_ARGUMENT ''Invalid status request''
                         (correlation_id (header msg)))
      else
        (case find_job (job_queue s) (u32_at (data msg) 0) of
           None \<Rightarrow>
             with_server s (send_client_error tx client ERROR_NOT_FOUND ''Job not found''
                              (correlation_id (header msg)))
         | Some job \<Rightarrow>
             (if client_id job \<noteq> cl_client_id client then
                with_server s (send_client_error tx client ERROR_PERMISSION ''Access denied''
                                 (correlation_id (header msg)))
              else
                with_server s
                  (send_client_response tx client MSG_STATUS_RESPONSE
                     (JOB_STATUS_PAYLOAD (job_id job) (job_state_code (state job))
                        (if state job = JOB_STATE_COMPLETED then 100
                         else if state job = JOB_STATE_RUNNING then 50 else 0)
                        (start_time job) (end_time job) (process_id job))
                     sizeof_job_status_payload_t (correlation_id (header msg))))))"

definition handle_result_request :: "tx_t \<Rightarrow> server_t \<Rightarrow> client_info_t \<Rightarrow> message_t \<Rightarrow> handled" where
  "handle_result_request tx s client msg =
     (if unat (data_length (header msg)) < 4 then
        with_server s (send_client_error tx client ERROR_INVALID_ARGUMENT ''Invalid result request''
                         (correlation_id (header msg)))
      else
        (case find_job (job_queue s) (u32_at (data msg) 0) of
           None \<Rightarrow>
             with_server s (send_client_error tx client ERROR_NOT_FOUND ''Job not found''
                              (correlation_id (header msg)))
         | Some job \<Rightarrow>
             (if client_id job \<noteq> cl_client_id client then
                with_server s (send_client_error tx client ERROR_PERMISSION ''Access denied''
                                 (correlation_id (header msg)))
              else if state job \<noteq> JOB_STATE_COMPLETED \<and> state job \<noteq> JOB_STATE_FAILED then
                with_server s (send_client_error tx client ERROR_PERMISSION ''Job not completed''
                                 (correlation_id (header msg)))
              else
                with_server s
                  (send_client_response tx client MSG_RESULT_RESPONSE
                     (COMPILE_RESPONSE (job_id job) (job_state_code (state job)) (exit_code job)
                        (if end_time job > start_time job
                         then word_of_int ((end_time job - start_time job) * 1000) else 0))
                     sizeof_compile_response_t (correlation_id (header msg))))))"

definition process_client_request ::
  "bool \<Rightarrow> int \<Rightarrow> tx_t \<Rightarrow> server_t \<Rightarrow> client_info_t \<Rightarrow> message_t \<Rightarrow> handled" where
  "process_client_request mem now tx s client msg =
     (let ty = message_type (header msg) in
      if ty = MSG_HELLO then handle_hello_message tx s client msg
      else if ty = MSG_FILE_UPLOAD_START then handle_file_upload_start tx s client msg
      else if ty = MSG_FILE_UPLOAD_CHUNK then handle_file_upload_chunk tx s client msg
      else if ty = MSG_FILE_UPLOAD_END then handle_file_upload_end tx s client msg
      else if ty = MSG_COMPILE_REQUEST then handle_compile_request mem now tx s client msg
      else if ty = MSG_STATUS_REQUEST then handle_status_request tx s client msg
      else if ty = MSG_RESULT_REQUEST then handle_result_request tx s client msg
      else if ty = MSG_PING then
        with_server s (send_client_response tx client MSG_PONG NO_PAYLOAD 0 (correlation_id (header msg)))
      else
        with_server s (send_client_error tx client ERROR_INVALID_ARGUMENT ''Unknown message type''
                         (correlation_id (header msg))))"

text \<open>
  The socket as \<open>handle_client_message\<close> meets it: the outcome of the \<open>recv\<close> of the
  header, the bytes that are waiting behind the header, and how the socket takes what is
  sent. \<open>validate_message_header\<close> is declared in protocol.h and defined nowhere in the
  sources at hand; it is the parameter \<open>valid\<close>. The result adds, to that of a handler, how
  many payload bytes were taken from the socket.
\<close>

datatype recv_t = RECV_EAGAIN | RECV_FAILED | RECV_EOF | RECV_SHORT | RECV_HEADER message_header_t

record socket_t =
  sock_header :: recv_t
  sock_pending :: string
  sock_tx :: tx_t

definition handle_client_message ::
  "(message_header_t \<Rightarrow> int) \<Rightarrow> bool \<Rightarrow> bool \<Rightarrow> int \<Rightarrow> socket_t \<Rightarrow> server_t \<Rightarrow> client_info_t
     \<Rightarrow> int \<times> client_info_t \<times> server_t \<times> sent_t list \<times> nat" where
  "handle_client_message valid mem_msg mem_job now sock s client =
     (case sock_header sock of
        RECV_EAGAIN \<Rightarrow> (0, client, s, [], 0)
      | RECV_FAILED \<Rightarrow> (-1, client, s, [], 0)
      | RECV_EOF \<Rightarrow> (-1, client, s, [], 0)
      | RECV_SHORT \<Rightarrow> (-1, client, s, [], 0)
      | RECV_HEADER h \<Rightarrow>
          (if valid h \<noteq> 0 then (-1, client, s, [], 0)
           else if unat (data_length h) > 0 then
             (if unat (data_length h) > MAX_MESSAGE_SIZE then (-1, client, s, [], 0)
              else if \<not> mem_msg then (-1, client, s, [], 0)
              else
                (let got = take (unat (data_length h)) (sock_pending sock) in
                 if length got \<noteq> unat (data_length h) then (-1, client, s, [], length got)
                 else
                   (let c1 = client\<lparr>bytes_received := bytes_received client + unat (data_length h),
                                     last_activity := now\<rparr>
                    in case process_client_request mem_job now (sock_tx sock) s c1 \<lparr>header = h, data = got\<rparr> of
                         (rc, c, s', out) \<Rightarrow> (rc, c, s', out, length got))))
           else
             (case process_client_request mem_job now (sock_tx sock) s (client\<lparr>last_activity := now\<rparr>)
                     \<lparr>header = h, data = []\<rparr> of
                (rc, c, s', out) \<Rightarrow> (rc, c, s', out, 0))))"

text \<open>
  \<open>cleanup_inactive_client\<close> closes the socket and marks every job of the client as
  cancelled; \<open>remove_client\<close> then drops the session from the roster.
\<close>

fun cancel_jobs_of :: "job_info_t list \<Rightarrow> u32 \<Rightarrow> job_info_t list \<times> (int \<times> signal_t) list" where
  "cancel_jobs_of [] cid = ([], [])"
| "cancel_jobs_of (node # rest) cid =
     (let (rest', sigs) = cancel_jobs_of rest cid in
      if client_id node = cid then
        (node\<lparr>state := JOB_STATE_CANCELLED\<rparr> # rest',
         (if state node = JOB_STATE_RUNNING \<and> process_id node > 0 then [(process_id node, SIGTERM)] else []) @ sigs)
      else (node # rest', sigs))"

definition cleanup_inactive_client ::
  "client_info_t \<Rightarrow> server_t \<Rightarrow> client_info_t \<times> server_t \<times> (int \<times> signal_t) list" where
  "cleanup_inactive_client client s =
     (let (q, sigs) = cancel_jobs_of (job_queue s) (cl_client_id client)
      in (client\<lparr>socket_open := False\<rparr>, s\<lparr>job_queue := q\<rparr>, sigs))"

text \<open>
  The \<open>POLLIN\<close> branch of \<open>client_thread_handler\<close> for one client: the message is
  handled, and a non-zero result tears the connection down. The result is the session (or
  \<open>None\<close> once it is removed), the socket state of the client record, the server, the
  responses written and the payload bytes taken from the socket.
\<close>

definition client_pollin ::
  "(message_header_t \<Rightarrow> int) \<Rightarrow> bool \<Rightarrow> bool \<Rightarrow> int \<Rightarrow> socket_t \<Rightarrow> server_t \<Rightarrow> client_info_t
     \<Rightarrow> client_info_t option \<times> bool \<times> server_t \<times> sent_t list \<times> nat" where
  "client_pollin valid mem_msg mem_job now sock s client =
     (case handle_client_message valid mem_msg mem_job now sock s client of
        (rc, c, s', out, consumed) \<Rightarrow>
          (if rc \<noteq> 0 then
             (case cleanup_inactive_client c s' of
                (c', s'', sigs) \<Rightarrow> (None, socket_open c', s'', out, consumed))
           else (Some c, socket_open c, s', out, consumed)))"

section \<open>Example inputs\<close>

text \<open>
  Concrete messages, sessions, jobs and environments, used where a property is evaluated at
  an input. \<open>quiet_run t0 secs\<close> is a child that writes nothing: \<open>select\<close> expires once a
  second, \<open>secs\<close> times. \<open>slow_run t0 secs\<close> is a child that writes nothing for
  \<open>secs\<close> seconds, then fills both pipes beyond the buffers and exits with 0.
  \<open>example_env\<close> has a C compiler registered and a readable file \<open>a\<close>, the name that
  is left of \<open>a.c\<close> when the worker has cut it; \<open>example_cj\<close> is the compilation job
  that the worker sets up for \<open>example_job 1 7\<close>.
\<close>

definition pad_field :: "nat \<Rightarrow> string \<Rightarrow> string" where
  "pad_field n str = str @ replicate (n - length str) (CHR 0x00)"

definition mk_header :: "u16 \<Rightarrow> nat \<Rightarrow> u32 \<Rightarrow> message_header_t" where
  "mk_header ty len corr =
     \<lparr>magic = PROTOCOL_MAGIC, message_type = ty, flags = 0, data_length = word_of_nat len,
      correlation_id = corr, timestamp = 0, checksum = 0\<rparr>"

definition compile_request_bytes :: "char \<Rightarrow> char \<Rightarrow> char \<Rightarrow> string \<Rightarrow> string" where
  "compile_request_bytes lang md prio fname =
     [lang, CHR 0x00, md, CHR 0x00, CHR 0x00, CHR 0x00, prio, CHR 0x00]
     @ pad_field 256 fname @ pad_field 1024 [] @ pad_field 1024 []"

definition compile_request_msg :: "char \<Rightarrow> u32 \<Rightarrow> message_t" where
  "compile_request_msg prio corr =
     \<lparr>header = mk_header MSG_COMPILE_REQUEST 2312 corr, data = compile_request_bytes (CHR 0x01) (CHR 0x00) prio ''a.c''\<rparr>"

definition session :: "u32 \<Rightarrow> client_state_t \<Rightarrow> client_info_t" where
  "session cid st =
     \<lparr>socket_open = True, cl_client_id = cid, cl_state = st, last_activity = 0, client_name = [],
      client_platform = [], active_jobs = 0, bytes_sent = 0, bytes_received = 0\<rparr>"

definition server_init :: server_t where
  "server_init = \<lparr>job_queue = [], next_id = next_id_init, max_file_size = 1048576, files = Map.empty\<rparr>"

definition example_job :: "u32 \<Rightarrow> u32 \<Rightarrow> int \<Rightarrow> job_info_t" where
  "example_job jid cid t =
     \<lparr>job_id = jid, client_id = cid, state = JOB_STATE_QUEUED, language = 1, mode = 0,
      submit_time = t, start_time = 0, end_time = 0, process_id = 0, exit_code = 0,
      source_file = ''a.c'', output_file = [], error_file = [], compiler_args = [],
      execution_args = [], priority = 5\<rparr>"

definition status_request_msg :: "u32 \<Rightarrow> message_t" where
  "status_request_msg corr =
     \<lparr>header = mk_header MSG_STATUS_REQUEST 4 corr, data = [CHR 0x01, CHR 0x00, CHR 0x00, CHR 0x00]\<rparr>"

definition error_response :: "u32 \<Rightarrow> string \<Rightarrow> u32 \<Rightarrow> sent_t list" where
  "error_response code msg corr =
     [SENT_HEADER MSG_ERROR sizeof_error_payload_t corr, SENT_PAYLOAD (ERROR_PAYLOAD code msg)]"

definition ack_response :: "u32 \<Rightarrow> sent_t list" where
  "ack_response corr = [SENT_HEADER MSG_ACK 0 corr]"

definition compile_response :: "u32 \<Rightarrow> u32 \<Rightarrow> sent_t list" where
  "compile_response jid corr =
     [SENT_HEADER MSG_COMPILE_RESPONSE sizeof_compile_response_t corr,
      SENT_PAYLOAD (COMPILE_RESPONSE jid JOB_STATUS_QUEUED 0 0)]"

definition quiet_run :: "int \<Rightarrow> int \<Rightarrow> cmd_env" where
  "quiet_run t0 secs =
     \<lparr>pipe_ok = True, fork_ok = True, start_clock = t0,
      selects = map (\<lambda>k. SEL_EXPIRED (t0 + int k)) [1..<Suc (nat secs)], wait_result = Some (WSIGNALED 9)\<rparr>"

definition example_env :: "cmd_env \<Rightarrow> cmd_env \<Rightarrow> job_env" where
  "example_env crun erun =
     \<lparr>comp_alloc = True, registry = [\<lparr>ci_type = COMPILER_C, ci_available = True\<rparr>],
      sandbox_ok = True, readable = (\<lambda>name. name = ''a''), cmd_alloc = True,
      compile_run = crun, exec_run = erun,
      interpret_source_code = (\<lambda>cj. (-1, cj)), syntax_check_only = (\<lambda>cj. (-1, cj)),
      clock_begin = start_clock crun, clock_end = start_clock crun + 300\<rparr>"

definition example_cj :: compilation_job_t where
  "example_cj =
     (create_compilation_job 1 7)
       \<lparr>cj_compiler_type := COMPILER_C, cj_source_file := ''a'', cj_executable_file := ''a_exe'',
        cj_output_file := ''a_output.txt'', cj_error_file := ''a_error.txt''\<rparr>"

definition upload_start_msg :: "u32 \<Rightarrow> message_t" where
  "upload_start_msg corr =
     \<lparr>header = mk_header MSG_FILE_UPLOAD_START 276 corr,
      data = [CHR 0x16, CHR 0x00, CHR 0x00, CHR 0x00, CHR 0x00, CHR 0x00, CHR 0x00, CHR 0x00,
              CHR 0x01, CHR 0x00, CHR 0x00, CHR 0x00,
              CHR 0x16, CHR 0x00, CHR 0x00, CHR 0x00]
             @ pad_field 256 ''a.c'' @ [CHR 0x00, CHR 0x00, CHR 0x00, CHR 0x00]\<rparr>"

definition upload_chunk_msg :: "u32 \<Rightarrow> message_t" where
  "upload_chunk_msg corr =
     \<lparr>header = mk_header MSG_FILE_UPLOAD_CHUNK 34 corr,
      data = [CHR 0x00, CHR 0x00, CHR 0x00, CHR 0x00,
              CHR 0x16, CHR 0x00, CHR 0x00, CHR 0x00,
              CHR 0x00, CHR 0x00, CHR 0x00, CHR 0x00]
             @ ''int main(){return 0;}'' @ [CHR 0x0A]\<rparr>"

definition upload_end_msg :: "u32 \<Rightarrow> message_t" where
  "upload_end_msg corr = \<lparr>header = mk_header MSG_FILE_UPLOAD_END 0 corr, data = []\<rparr>"

definition ping_msg :: "u32 \<Rightarrow> message_t" where
  "ping_msg corr = \<lparr>header = mk_header MSG_PING 0 corr, data = []\<rparr>"

definition oversize_header :: message_header_t where
  "oversize_header = mk_header MSG_PING 16777217 9"

definition full_size_header :: message_header_t where
  "full_size_header = mk_header MSG_PING 16777216 9"

definition accept_header :: "message_header_t \<Rightarrow> int" where
  "accept_header h = 0"

definition pong_response :: "u32 \<Rightarrow> sent_t list" where
  "pong_response corr = [SENT_HEADER MSG_PONG 0 corr]"

definition unknown_msg :: "u32 \<Rightarrow> message_t" where
  "unknown_msg corr = \<lparr>header = mk_header 99 0 corr, data = []\<rparr>"

definition slow_run :: "int \<Rightarrow> int \<Rightarrow> cmd_env" where
  "slow_run t0 secs =
     \<lparr>pipe_ok = True, fork_ok = True, start_clock = t0,
      selects = map (\<lambda>k. SEL_EXPIRED (t0 + int k)) [1..<Suc (nat secs)] @ [SEL_READY True True 8191 8191],
      wait_result = Some (WEXITED 0)\<rparr>"

section \<open>Properties\<close>

lemma compile_request_fields:
  "length (compile_request_bytes (CHR 0x01) (CHR 0x00) p ''a.c'') = 2312"
  "cstr_at (compile_request_bytes (CHR 0x01) (CHR 0x00) p ''a.c'') 8 255 = ''a.c''"
  "cstr_at (compile_request_bytes (CHR 0x01) (CHR 0x00) p ''a.c'') 264 1023 = []"
  "cstr_at (compile_request_bytes (CHR 0x01) (CHR 0x00) p ''a.c'') 1288 1023 = []"
  "u16_at (compile_request_bytes (CHR 0x01) (CHR 0x00) p ''a.c'') 0 = 1"
  "u16_at (compile_request_bytes (CHR 0x01) (CHR 0x00) p ''a.c'') 2 = 0"
  by (simp_all add: compile_request_bytes_def pad_field_def cstr_at_def strncpy_str_def u16_at_def le_nat_def)

lemma submit_example:
  "next_id s \<noteq> 0 \<Longrightarrow>
   handle_compile_request True t TX_OK s (session cid CLIENT_STATE_IDLE) (compile_request_msg p corr)
     = (0, (session cid CLIENT_STATE_PROCESSING)\<lparr>active_jobs := 1, bytes_sent := 52\<rparr>,
        s\<lparr>job_queue := job_queue s @ [example_job (next_id s) cid t],
          next_id := (if next_id s + 1 = 0 then 1 else next_id s + 1)\<rparr>,
        compile_response (next_id s) corr)"
  by (simp add: handle_compile_request_def compile_request_msg_def mk_header_def compile_request_fields
        sizeof_compile_request_t_def generate_job_id_def add_job_def Let_def session_def example_job_def
        with_server_def send_client_response_def JOB_PRIORITY_NORMAL_def sizeof_message_header_t_def
        sizeof_compile_response_t_def compile_response_def)

lemma read_loop_skip_expired:
  "opos < osz - 1 \<or> epos < esz - 1 \<Longrightarrow> \<forall>u\<in>set ts. u - start < timeout \<Longrightarrow>
   read_loop (map SEL_EXPIRED ts @ rest) start timeout osz esz opos epos
     = read_loop rest start timeout osz esz opos epos"
  by (induction ts) auto

lemma read_loop_times_out:
  assumes "opos < osz - 1 \<or> epos < esz - 1" and "\<forall>u\<in>set ts. u - start < timeout"
    and "timeout \<le> t - start"
  shows "read_loop (map SEL_EXPIRED ts @ SEL_EXPIRED t # rest) start timeout osz esz opos epos
           = Some (True, opos, epos)"
  using assms by (simp add: read_loop_skip_expired)

lemma quiet_run_selects:
  "0 < n \<Longrightarrow> selects (quiet_run t0 (int n))
     = map SEL_EXPIRED (map (\<lambda>k. t0 + int k) [1..<n]) @ [SEL_EXPIRED (t0 + int n)]"
  by (simp add: quiet_run_def)

lemma quiet_run_times_out:
  assumes "0 < n" "1 < osz"
  shows "execute_command_with_timeout (quiet_run t0 (int n)) osz esz (int n)
           = Some \<lparr>ret = 124, launched = True, killed = True\<rparr>"
proof -
  have "read_loop (selects (quiet_run t0 (int n))) t0 (int n) osz esz 0 0 = Some (True, 0, 0)"
    unfolding quiet_run_selects [OF assms(1)]
    by (rule read_loop_times_out) (use assms in auto)
  then show ?thesis
    by (simp add: execute_command_with_timeout_def quiet_run_def)
qed

text \<open>
  Claim C1 (a job stays visible to \<open>find_job\<close> from submission until the retirement sweep).
  Evaluation at a submitted job: the job is found while it waits; \<open>get_next_job\<close> unlinks
  its node when the worker takes it, and from then on \<open>find_job\<close> returns \<open>NULL\<close> and a
  status request of the owner is answered with \<open>ERROR_NOT_FOUND\<close>.
\<close>

theorem dequeued_job_not_found:
  "handle_compile_request True 1000 TX_OK server_init (session 7 CLIENT_STATE_IDLE)
       (compile_request_msg (CHR 0x05) 41)
     = (0, (session 7 CLIENT_STATE_PROCESSING)\<lparr>active_jobs := 1, bytes_sent := 52\<rparr>,
        server_init\<lparr>job_queue := [example_job 1 7 1000], next_id := 2\<rparr>,
        compile_response 1 41)
   \<and> find_job [example_job 1 7 1000] 1 = Some (example_job 1 7 1000)
   \<and> get_next_job True [example_job 1 7 1000] = ([], Some (example_job 1 7 1000))
   \<and> find_job [] 1 = None
   \<and> handle_status_request TX_OK (server_init\<lparr>job_queue := [], next_id := 2\<rparr>)
         ((session 7 CLIENT_STATE_PROCESSING)\<lparr>active_jobs := 1, bytes_sent := 52\<rparr>) (status_request_msg 42)
     = (0, (session 7 CLIENT_STATE_PROCESSING)\<lparr>active_jobs := 1, bytes_sent := 4440\<rparr>,
        server_init\<lparr>job_queue := [], next_id := 2\<rparr>,
        error_response ERROR_NOT_FOUND ''Job not found'' 42)"
proof -
  have "handle_status_request TX_OK (server_init\<lparr>job_queue := [], next_id := 2\<rparr>)
         ((session 7 CLIENT_STATE_PROCESSING)\<lparr>active_jobs := 1, bytes_sent := 52\<rparr>) (status_request_msg 42)
     = (0, (session 7 CLIENT_STATE_PROCESSING)\<lparr>active_jobs := 1, bytes_sent := 4440\<rparr>,
        server_init\<lparr>job_queue := [], next_id := 2\<rparr>,
        error_response ERROR_NOT_FOUND ''Job not found'' 42)"
    by (simp add: handle_status_request_def status_request_msg_def mk_header_def u32_at_def le_nat_def
          send_client_error_def send_client_response_def with_server_def error_response_def
          strncpy_str_def session_def sizeof_message_header_t_def sizeof_error_payload_t_def)
  then show ?thesis
    using submit_example [of server_init 1000 7 "CHR 0x05" 41]
    by (simp add: server_init_def next_id_init_def example_job_def)
qed

lemma compile_quiet_300:
  "execute_command_with_timeout (quiet_run t0 300) MAX_COMPILER_OUTPUT MAX_COMPILER_OUTPUT MAX_COMPILATION_TIME
     = Some \<lparr>ret = 124, launched = True, killed = True\<rparr>"
  using quiet_run_times_out [of 300 MAX_COMPILER_OUTPUT t0 MAX_COMPILER_OUTPUT]
  by (simp add: MAX_COMPILER_OUTPUT_def MAX_COMPILATION_TIME_def)

text \<open>
  Claim C3 (higher priority first, submission order among equals, priority taken from the
  request). Evaluation at two requests, the first with priority field 1 and the second with
  priority field 10: both jobs are queued with \<open>JOB_PRIORITY_NORMAL\<close> and the first one
  submitted is dequeued first; and two jobs handed to \<open>add_job\<close> with priorities 1 and 10
  leave the queue in that order.
\<close>

theorem request_priority_ignored:
  "u16_at (data (compile_request_msg (CHR 0x01) 41)) 6 = 1
   \<and> u16_at (data (compile_request_msg (CHR 0x0A) 42)) 6 = 10
   \<and> handle_compile_request True 1000 TX_OK server_init (session 7 CLIENT_STATE_IDLE)
         (compile_request_msg (CHR 0x01) 41)
       = (0, (session 7 CLIENT_STATE_PROCESSING)\<lparr>active_jobs := 1, bytes_sent := 52\<rparr>,
          server_init\<lparr>job_queue := [example_job 1 7 1000], next_id := 2\<rparr>,
          compile_response 1 41)
   \<and> handle_compile_request True 1001 TX_OK (server_init\<lparr>job_queue := [example_job 1 7 1000], next_id := 2\<rparr>)
         (session 8 CLIENT_STATE_IDLE) (compile_request_msg (CHR 0x0A) 42)
       = (0, (session 8 CLIENT_STATE_PROCESSING)\<lparr>active_jobs := 1, bytes_sent := 52\<rparr>,
          server_init\<lparr>job_queue := [example_job 1 7 1000, example_job 2 8 1001], next_id := 3\<rparr>,
          compile_response 2 42)
   \<and> priority (example_job 1 7 1000) = JOB_PRIORITY_NORMAL
   \<and> priority (example_job 2 8 1001) = JOB_PRIORITY_NORMAL
   \<and> get_next_job True [example_job 1 7 1000, example_job 2 8 1001]
       = ([example_job 2 8 1001], Some (example_job 1 7 1000))
   \<and> get_next_job True
         (fst (add_job True (fst (add_job True [] ((example_job 1 7 1000)\<lparr>priority := JOB_PRIORITY_LOW\<rparr>)))
                 ((example_job 2 8 1001)\<lparr>priority := JOB_PRIORITY_HIGH\<rparr>)))
       = ([(example_job 2 8 1001)\<lparr>priority := JOB_PRIORITY_HIGH\<rparr>],
          Some ((example_job 1 7 1000)\<lparr>priority := JOB_PRIORITY_LOW\<rparr>))"
proof -
  have f: "u16_at (data (compile_request_msg p c)) 6 = word_of_nat (of_char p)" for p c
    by (simp add: compile_request_msg_def compile_request_bytes_def u16_at_def le_nat_def)
  show ?thesis
    using submit_example [of server_init 1000 7 "CHR 0x01" 41]
      submit_example [of "server_init\<lparr>job_queue := [example_job 1 7 1000], next_id := 2\<rparr>" 1001 8 "CHR 0x0A" 42]
    by (simp add: f server_init_def next_id_init_def example_job_def add_job_def JOB_PRIORITY_NORMAL_def)
qed

text \<open>
  Claim C4 (a job cancelled while queued is never executed). Evaluation at a queued job
  that is cancelled and then reached by the worker: \<open>cancel_job\<close> marks it cancelled, and
  the worker still starts its compile command.
\<close>

theorem cancelled_job_still_executed:
  "cancel_job 1005 [example_job 1 7 1000] 1
     = ([(example_job 1 7 1000)\<lparr>state := JOB_STATE_CANCELLED, end_time := 1005\<rparr>], [])
   \<and> job_processor_step True (example_env (quiet_run 1010 300) (quiet_run 1310 60))
         [(example_job 1 7 1000)\<lparr>state := JOB_STATE_CANCELLED, end_time := 1005\<rparr>]
     = Some ([],
             Some ((example_job 1 7 1000)\<lparr>state := JOB_STATE_CANCELLED, end_time := 1005, process_id := -1,
                     output_file := ''a_output.txt'', error_file := ''a_error.txt''\<rparr>),
             [STEP_COMPILE 1])"
  by (simp add: example_job_def job_processor_step_def process_compilation_job_def example_env_def
        run_mode_def compile_source_code_def compile_quiet_300 Let_def create_compilation_job_def
        strncpy_str_def snprintf_str_def cut_extension_def c_basename_def build_compile_command_def
        COMPILER_C_def)

text \<open>
  Claim C7 (\<open>cancel_job\<close> on a terminal job changes nothing). Evaluation at a job already
  cancelled at time 100 and cancelled again at time 200: its end time becomes 200; a
  completed job becomes cancelled. \<open>cancel_client_jobs\<close>, which tests for the queued and
  running states first, leaves the same job as it is.
\<close>

theorem cancel_job_rewrites_terminal_job:
  "cancel_job 100 [example_job 1 7 0] 1
     = ([(example_job 1 7 0)\<lparr>state := JOB_STATE_CANCELLED, end_time := 100\<rparr>], [])
   \<and> cancel_job 200 [(example_job 1 7 0)\<lparr>state := JOB_STATE_CANCELLED, end_time := 100\<rparr>] 1
     = ([(example_job 1 7 0)\<lparr>state := JOB_STATE_CANCELLED, end_time := 200\<rparr>], [])
   \<and> cancel_job 200 [(example_job 1 7 0)\<lparr>state := JOB_STATE_COMPLETED, end_time := 100\<rparr>] 1
     = ([(example_job 1 7 0)\<lparr>state := JOB_STATE_CANCELLED, end_time := 200\<rparr>], [])
   \<and> cancel_client_jobs 200 [(example_job 1 7 0)\<lparr>state := JOB_STATE_CANCELLED, end_time := 100\<rparr>] 7
     = ([(example_job 1 7 0)\<lparr>state := JOB_STATE_CANCELLED, end_time := 100\<rparr>], [], 0)"
  by (simp add: example_job_def)

text \<open>
  Claim C2 (the uploaded bytes are stored under the declared name). Evaluation at an upload
  of the 22 bytes of a C file as \<open>a.c\<close>: the three messages are acknowledged, the session
  is back in the idle state, and the server state, its files included, is what it was: no
  file \<open>a.c\<close> exists.
\<close>

theorem upload_not_persisted:
  "handle_file_upload_start TX_OK server_init (session 7 CLIENT_STATE_AUTHENTICATED) (upload_start_msg 51)
     = (0, (session 7 CLIENT_STATE_UPLOADING)\<lparr>bytes_sent := 28\<rparr>, server_init, ack_response 51)
   \<and> handle_file_upload_chunk TX_OK server_init ((session 7 CLIENT_STATE_UPLOADING)\<lparr>bytes_sent := 28\<rparr>)
         (upload_chunk_msg 52)
     = (0, (session 7 CLIENT_STATE_UPLOADING)\<lparr>bytes_sent := 56\<rparr>, server_init, ack_response 52)
   \<and> handle_file_upload_end TX_OK server_init ((session 7 CLIENT_STATE_UPLOADING)\<lparr>bytes_sent := 56\<rparr>)
         (upload_end_msg 53)
     = (0, (session 7 CLIENT_STATE_IDLE)\<lparr>bytes_sent := 84\<rparr>, server_init, ack_response 53)
   \<and> files server_init ''a.c'' = None"
  by (simp add: handle_file_upload_start_def handle_file_upload_chunk_def handle_file_upload_end_def
        upload_start_msg_def upload_chunk_msg_def upload_end_msg_def mk_header_def session_def
        server_init_def with_server_def send_client_response_def ack_response_def u64_at_def u32_at_def
        le_nat_def pad_field_def sizeof_file_upload_start_t_def sizeof_file_chunk_t_def
        sizeof_message_header_t_def)

text \<open>
  Claim C10. When the header received declares a payload longer than \<open>MAX_MESSAGE_SIZE\<close>
  (16 MiB), \<open>handle_client_message\<close> returns -1 having written no response and taken no
  payload byte from the socket, whatever \<open>validate_message_header\<close> answers, and
  \<open>client_thread_handler\<close> closes the socket and removes the session. A header that
  declares exactly 16 MiB passes the size check: once validated, its payload is read in full
  and the message is dispatched.
\<close>

theorem oversize_payload_is_framing_error:
  "(sock_header sock = RECV_HEADER h \<and> unat (data_length h) > MAX_MESSAGE_SIZE \<longrightarrow>
      handle_client_message valid mem_msg mem_job now sock s client = (-1, client, s, [], 0)
      \<and> client_pollin valid mem_msg mem_job now sock s client
          = (None, False, s\<lparr>job_queue := fst (cancel_jobs_of (job_queue s) (cl_client_id client))\<rparr>, [], 0))
   \<and> (sock_header sock = RECV_HEADER h \<and> unat (data_length h) = MAX_MESSAGE_SIZE \<and> valid h = 0 \<and> mem_msg
        \<and> MAX_MESSAGE_SIZE \<le> length (sock_pending sock) \<longrightarrow>
      handle_client_message valid mem_msg mem_job now sock s client
        = (case process_client_request mem_job now (sock_tx sock) s
                  (client\<lparr>bytes_received := bytes_received client + MAX_MESSAGE_SIZE, last_activity := now\<rparr>)
                  \<lparr>header = h, data = take MAX_MESSAGE_SIZE (sock_pending sock)\<rparr> of
             (rc, c, s', out) \<Rightarrow> (rc, c, s', out, MAX_MESSAGE_SIZE)))"
proof (intro conjI impI)
  assume a: "sock_header sock = RECV_HEADER h \<and> unat (data_length h) > MAX_MESSAGE_SIZE"
  then show m: "handle_client_message valid mem_msg mem_job now sock s client = (-1, client, s, [], 0)"
    by (simp add: handle_client_message_def)
  show "client_pollin valid mem_msg mem_job now sock s client
          = (None, False, s\<lparr>job_queue := fst (cancel_jobs_of (job_queue s) (cl_client_id client))\<rparr>, [], 0)"
    by (simp add: client_pollin_def m cleanup_inactive_client_def split: prod.splits)
next
  assume a: "sock_header sock = RECV_HEADER h \<and> unat (data_length h) = MAX_MESSAGE_SIZE \<and> valid h = 0 \<and> mem_msg
        \<and> MAX_MESSAGE_SIZE \<le> length (sock_pending sock)"
  then have "0 < unat (data_length h)" by (simp add: MAX_MESSAGE_SIZE_def)
  with a show "handle_client_message valid mem_msg mem_job now sock s client
        = (case process_client_request mem_job now (sock_tx sock) s
                  (client\<lparr>bytes_received := bytes_received client + MAX_MESSAGE_SIZE, last_activity := now\<rparr>)
                  \<lparr>header = h, data = take MAX_MESSAGE_SIZE (sock_pending sock)\<rparr> of
             (rc, c, s', out) \<Rightarrow> (rc, c, s', out, MAX_MESSAGE_SIZE))"
    by (simp add: handle_client_message_def Let_def)
qed

text \<open>The property of C10 at a header of 16 MiB + 1 and at a \<open>Ping\<close> header of exactly 16 MiB.\<close>

theorem oversize_payload_is_framing_error_witness:
  "handle_client_message accept_header True True 50
       \<lparr>sock_header = RECV_HEADER oversize_header, sock_pending = ''x'', sock_tx = TX_OK\<rparr>
       server_init (session 7 CLIENT_STATE_IDLE)
     = (-1, session 7 CLIENT_STATE_IDLE, server_init, [], 0)
   \<and> client_pollin accept_header True True 50
       \<lparr>sock_header = RECV_HEADER oversize_header, sock_pending = ''x'', sock_tx = TX_OK\<rparr>
       server_init (session 7 CLIENT_STATE_IDLE)
     = (None, False, server_init, [], 0)
   \<and> handle_client_message accept_header True True 50
       \<lparr>sock_header = RECV_HEADER full_size_header, sock_pending = replicate 16777216 (CHR ''x''), sock_tx = TX_OK\<rparr>
       server_init (session 7 CLIENT_STATE_IDLE)
     = (0, (session 7 CLIENT_STATE_IDLE)\<lparr>bytes_received := 16777216, last_activity := 50, bytes_sent := 28\<rparr>,
        server_init, pong_response 9, 16777216)"
proof -
  have p: "process_client_request True 50 TX_OK sv c \<lparr>header = full_size_header, data = d\<rparr>
             = (0, c\<lparr>bytes_sent := bytes_sent c + 28\<rparr>, sv, pong_response 9)" for sv c d
    by (simp add: process_client_request_def full_size_header_def mk_header_def MSG_PING_def MSG_HELLO_def
          MSG_FILE_UPLOAD_START_def MSG_FILE_UPLOAD_CHUNK_def MSG_FILE_UPLOAD_END_def MSG_COMPILE_REQUEST_def
          MSG_STATUS_REQUEST_def MSG_RESULT_REQUEST_def with_server_def send_client_response_def
          pong_response_def sizeof_message_header_t_def MSG_PONG_def)
  have u1: "unat (data_length oversize_header) = 16777217"
    by (simp add: oversize_header_def mk_header_def)
  have u2: "unat (data_length full_size_header) = 16777216"
    by (simp add: full_size_header_def mk_header_def)
  show ?thesis
    using oversize_payload_is_framing_error
            [of "\<lparr>sock_header = RECV_HEADER oversize_header, sock_pending = ''x'', sock_tx = TX_OK\<rparr>"
                oversize_header accept_header True True 50 server_init "session 7 CLIENT_STATE_IDLE"]
          oversize_payload_is_framing_error
            [of "\<lparr>sock_header = RECV_HEADER full_size_header, sock_pending = replicate 16777216 (CHR ''x''), sock_tx = TX_OK\<rparr>"
                full_size_header accept_header True True 50 server_init "session 7 CLIENT_STATE_IDLE"]
    by (simp add: u1 u2 MAX_MESSAGE_SIZE_def accept_header_def p server_init_def session_def)
qed

text \<open>
  Claim C5, as stated, fails: a \<open>Ping\<close> received as the first message of a session in the
  connecting state is answered with \<open>Pong\<close>, and the session stays open in the same state.
\<close>

theorem ping_before_hello_is_answered:
  "client_pollin accept_header True True 50
       \<lparr>sock_header = RECV_HEADER (header (ping_msg 9)), sock_pending = [], sock_tx = TX_OK\<rparr>
       server_init (session 7 CLIENT_STATE_CONNECTING)
     = (Some ((session 7 CLIENT_STATE_CONNECTING)\<lparr>last_activity := 50, bytes_sent := 28\<rparr>), True,
        server_init, pong_response 9, 0)"
  by (simp add: client_pollin_def handle_client_message_def accept_header_def ping_msg_def mk_header_def
        process_client_request_def MSG_PING_def MSG_HELLO_def
        MSG_FILE_UPLOAD_START_def MSG_FILE_UPLOAD_CHUNK_def MSG_FILE_UPLOAD_END_def MSG_COMPILE_REQUEST_def
        MSG_STATUS_REQUEST_def MSG_RESULT_REQUEST_def with_server_def send_client_response_def
        pong_response_def sizeof_message_header_t_def MSG_PONG_def session_def)

lemmas msg_type_defs = MSG_PING_def MSG_HELLO_def
        MSG_FILE_UPLOAD_START_def MSG_FILE_UPLOAD_CHUNK_def MSG_FILE_UPLOAD_END_def MSG_COMPILE_REQUEST_def
        MSG_STATUS_REQUEST_def MSG_RESULT_REQUEST_def

lemma handle_client_message_received:
  assumes "sock_header sock = RECV_HEADER h" "valid h = 0" "unat (data_length h) \<le> MAX_MESSAGE_SIZE"
    "mem_msg" "unat (data_length h) \<le> length (sock_pending sock)"
  shows "handle_client_message valid mem_msg mem_job now sock s client
           = (case process_client_request mem_job now (sock_tx sock) s
                     (client\<lparr>bytes_received := bytes_received client + unat (data_length h),
                             last_activity := now\<rparr>)
                     \<lparr>header = h, data = take (unat (data_length h)) (sock_pending sock)\<rparr> of
                (rc, c, s', out) \<Rightarrow> (rc, c, s', out, unat (data_length h)))"
proof (cases "unat (data_length h) = 0")
  case True
  with assms show ?thesis by (simp add: handle_client_message_def)
next
  case False
  with assms show ?thesis by (simp add: handle_client_message_def Let_def)
qed

lemma client_pollin_kept:
  assumes "handle_client_message valid mem_msg mem_job now sock s client = (0, c, s', out, k)"
  shows "client_pollin valid mem_msg mem_job now sock s client = (Some c, socket_open c, s', out, k)"
  using assms by (simp add: client_pollin_def)

text \<open>
  Claim C5, amended. Take a session in the connecting state and a first message whose header
  the validator accepts, whose payload arrives in full and whose reply the socket takes. Then
  the connection is kept and the session stays in the connecting state, whatever the kind:
  \<open>FileUploadStart\<close>, \<open>FileUploadChunk\<close>, \<open>FileUploadEnd\<close> and \<open>CompileRequest\<close> are
  refused with \<open>Error{Permission}\<close>; \<open>Ping\<close> is answered with \<open>Pong\<close>; \<open>StatusRequest\<close>
  and \<open>ResultRequest\<close> are served by the job lookup as in every other state
  (\<open>Error{InvalidArgument}\<close> for a payload under four bytes, \<open>Error{NotFound}\<close> for an
  unknown job, \<open>Error{Permission}\<close> for the job of another session or for a result that is
  not there yet, else the status or the result); every other kind is refused with
  \<open>Error{InvalidArgument}\<close>. Here \<open>rcv\<close> is the session record with the payload counted
  and the activity time set, and the session returned differs from it in \<open>bytes_sent\<close> only.
\<close>

theorem first_message_other_than_hello:
  assumes "cl_state client = CLIENT_STATE_CONNECTING"
    and "sock_header sock = RECV_HEADER h" and "valid h = 0" and "sock_tx sock = TX_OK"
    and "unat (data_length h) \<le> MAX_MESSAGE_SIZE" and "mem_msg"
    and "unat (data_length h) \<le> length (sock_pending sock)"
    and "n = unat (data_length h)" and "d = take n (sock_pending sock)"
    and "rcv = client\<lparr>bytes_received := bytes_received client + n, last_activity := now\<rparr>"
    and "corr = correlation_id h"
  shows
   "cl_state rcv = CLIENT_STATE_CONNECTING
    \<and> (message_type h = MSG_FILE_UPLOAD_START \<longrightarrow>
         client_pollin valid mem_msg mem_job now sock s client
           = (Some (rcv\<lparr>bytes_sent := bytes_sent client + 4388\<rparr>), socket_open client, s,
              error_response ERROR_PERMISSION ''Not authenticated'' corr, n))
    \<and> (message_type h = MSG_FILE_UPLOAD_CHUNK \<or> message_type h = MSG_FILE_UPLOAD_END \<longrightarrow>
         client_pollin valid mem_msg mem_job now sock s client
           = (Some (rcv\<lparr>bytes_sent := bytes_sent client + 4388\<rparr>), socket_open client, s,
              error_response ERROR_PERMISSION ''Not in upload mode'' corr, n))
    \<and> (message_type h = MSG_COMPILE_REQUEST \<longrightarrow>
         client_pollin valid mem_msg mem_job now sock s client
           = (Some (rcv\<lparr>bytes_sent := bytes_sent client + 4388\<rparr>), socket_open client, s,
              error_response ERROR_PERMISSION ''Client not ready'' corr, n))
    \<and> (message_type h = MSG_PING \<longrightarrow>
         client_pollin valid mem_msg mem_job now sock s client
           = (Some (rcv\<lparr>bytes_sent := bytes_sent client + 28\<rparr>), socket_open client, s,
              pong_response corr, n))
    \<and> (message_type h = MSG_STATUS_REQUEST \<and> n < 4 \<longrightarrow>
         client_pollin valid mem_msg mem_job now sock s client
           = (Some (rcv\<lparr>bytes_sent := bytes_sent client + 4388\<rparr>), socket_open client, s,
              error_response ERROR_INVALID_ARGUMENT ''Invalid status request'' corr, n))
    \<and> (message_type h = MSG_RESULT_REQUEST \<and> n < 4 \<longrightarrow>
         client_pollin valid mem_msg mem_job now sock s client
           = (Some (rcv\<lparr>bytes_sent := bytes_sent client + 4388\<rparr>), socket_open client, s,
              error_response ERROR_INVALID_ARGUMENT ''Invalid result request'' corr, n))
    \<and> ((message_type h = MSG_STATUS_REQUEST \<or> message_type h = MSG_RESULT_REQUEST) \<and> 4 \<le> n
          \<and> find_job (job_queue s) (u32_at d 0) = None \<longrightarrow>
         client_pollin valid mem_msg mem_job now sock s client
           = (Some (rcv\<lparr>bytes_sent := bytes_sent client + 4388\<rparr>), socket_open client, s,
              error_response ERROR_NOT_FOUND ''Job not found'' corr, n))
    \<and> ((message_type h = MSG_STATUS_REQUEST \<or> message_type h = MSG_RESULT_REQUEST) \<and> 4 \<le> n
          \<and> find_job (job_queue s) (u32_at d 0) = Some job \<and> client_id job \<noteq> cl_client_id client \<longrightarrow>
         client_pollin valid mem_msg mem_job now sock s client
           = (Some (rcv\<lparr>bytes_sent := bytes_sent client + 4388\<rparr>), socket_open client, s,
              error_response ERROR_PERMISSION ''Access denied'' corr, n))
    \<and> (message_type h = MSG_STATUS_REQUEST \<and> 4 \<le> n
          \<and> find_job (job_queue s) (u32_at d 0) = Some job \<and> client_id job = cl_client_id client \<longrightarrow>
         client_pollin valid mem_msg mem_job now sock s client
           = (Some (rcv\<lparr>bytes_sent := bytes_sent client + 312\<rparr>), socket_open client, s,
              [SENT_HEADER MSG_STATUS_RESPONSE 284 corr,
               SENT_PAYLOAD (JOB_STATUS_PAYLOAD (job_id job) (job_state_code (state job))
                  (if state job = JOB_STATE_COMPLETED then 100
                   else if state job = JOB_STATE_RUNNING then 50 else 0)
                  (start_time job) (end_time job) (process_id job))], n))
    \<and> (message_type h = MSG_RESULT_REQUEST \<and> 4 \<le> n
          \<and> find_job (job_queue s) (u32_at d 0) = Some job \<and> client_id job = cl_client_id client
          \<and> state job \<noteq> JOB_STATE_COMPLETED \<and> state job \<noteq> JOB_STATE_FAILED \<longrightarrow>
         client_pollin valid mem_msg mem_job now sock s client
           = (Some (rcv\<lparr>bytes_sent := bytes_sent client + 4388\<rparr>), socket_open client, s,
              error_response ERROR_PERMISSION ''Job not completed'' corr, n))
    \<and> (message_type h = MSG_RESULT_REQUEST \<and> 4 \<le> n
          \<and> find_job (job_queue s) (u32_at d 0) = Some job \<and> client_id job = cl_client_id client
          \<and> (state job = JOB_STATE_COMPLETED \<or> state job = JOB_STATE_FAILED) \<longrightarrow>
         client_pollin valid mem_msg mem_job now sock s client
           = (Some (rcv\<lparr>bytes_sent := bytes_sent client + 52\<rparr>), socket_open client, s,
              [SENT_HEADER MSG_RESULT_RESPONSE 24 corr,
               SENT_PAYLOAD (COMPILE_RESPONSE (job_id job) (job_state_code (state job)) (exit_code job)
                  (if end_time job > start_time job
                   then word_of_int ((end_time job - start_time job) * 1000) else 0))], n))
    \<and> (message_type h \<notin> {MSG_HELLO, MSG_FILE_UPLOAD_START, MSG_FILE_UPLOAD_CHUNK,
           MSG_FILE_UPLOAD_END, MSG_COMPILE_REQUEST, MSG_STATUS_REQUEST, MSG_RESULT_REQUEST, MSG_PING} \<longrightarrow>
         client_pollin valid mem_msg mem_job now sock s client
           = (Some (rcv\<lparr>bytes_sent := bytes_sent client + 4388\<rparr>), socket_open client, s,
              error_response ERROR_INVALID_ARGUMENT ''Unknown message type'' corr, n))"
proof -
  note r = handle_client_message_received
             [where valid = valid and h = h and sock = sock and mem_msg = mem_msg and mem_job = mem_job
                and now = now and s = s and client = client, OF assms(2,3,5,6,7)]
  have st: "cl_state rcv = CLIENT_STATE_CONNECTING" "bytes_sent rcv = bytes_sent client"
    "socket_open rcv = socket_open client" "cl_client_id rcv = cl_client_id client"
    using assms(1,10) by simp_all
  note defs = process_client_request_def handle_file_upload_start_def handle_file_upload_chunk_def
    handle_file_upload_end_def handle_compile_request_def handle_status_request_def
    handle_result_request_def msg_type_defs with_server_def
    send_client_error_def send_client_response_def error_response_def pong_response_def
    strncpy_str_def sizeof_message_header_t_def sizeof_error_payload_t_def
    sizeof_job_status_payload_t_def sizeof_compile_response_t_def Let_def
  have e: "client_pollin valid mem_msg mem_job now sock s client
             = (case process_client_request mem_job now TX_OK s rcv \<lparr>header = h, data = d\<rparr> of
                  (rc, c, s', out) \<Rightarrow>
                    (if rc \<noteq> 0 then
                       (case cleanup_inactive_client c s' of
                          (c', s'', sigs) \<Rightarrow> (None, socket_open c', s'', out, n))
                     else (Some c, socket_open c, s', out, n)))"
    using r assms(4,8,9,10) by (simp add: client_pollin_def split: prod.splits)
  show ?thesis
    unfolding e using st assms(8,9,11) by (auto simp: defs)
qed

text \<open>
  The amended property of C5 at four first messages: a \<open>Ping\<close>, a \<open>StatusRequest\<close> for a
  job that is not queued, a \<open>CompileRequest\<close>, and a message of kind 99.
\<close>

theorem first_message_other_than_hello_witness:
  "client_pollin accept_header True True 50
       \<lparr>sock_header = RECV_HEADER (header (ping_msg 9)), sock_pending = [], sock_tx = TX_OK\<rparr>
       server_init (session 7 CLIENT_STATE_CONNECTING)
     = (Some ((session 7 CLIENT_STATE_CONNECTING)\<lparr>last_activity := 50, bytes_sent := 28\<rparr>), True,
        server_init, pong_response 9, 0)
   \<and> client_pollin accept_header True True 50
       \<lparr>sock_header = RECV_HEADER (header (status_request_msg 42)),
        sock_pending = data (status_request_msg 42), sock_tx = TX_OK\<rparr>
       server_init (session 7 CLIENT_STATE_CONNECTING)
     = (Some ((session 7 CLIENT_STATE_CONNECTING)
                \<lparr>bytes_received := 4, last_activity := 50, bytes_sent := 4388\<rparr>), True,
        server_init, error_response ERROR_NOT_FOUND ''Job not found'' 42, 4)
   \<and> client_pollin accept_header True True 50
       \<lparr>sock_header = RECV_HEADER (header (compile_request_msg (CHR 0x05) 41)),
        sock_pending = data (compile_request_msg (CHR 0x05) 41), sock_tx = TX_OK\<rparr>
       server_init (session 7 CLIENT_STATE_CONNECTING)
     = (Some ((session 7 CLIENT_STATE_CONNECTING)
                \<lparr>bytes_received := 2312, last_activity := 50, bytes_sent := 4388\<rparr>), True,
        server_init, error_response ERROR_PERMISSION ''Client not ready'' 41, 2312)
   \<and> client_pollin accept_header True True 50
       \<lparr>sock_header = RECV_HEADER (header (unknown_msg 10)), sock_pending = [], sock_tx = TX_OK\<rparr>
       server_init (session 7 CLIENT_STATE_CONNECTING)
     = (Some ((session 7 CLIENT_STATE_CONNECTING)\<lparr>last_activity := 50, bytes_sent := 4388\<rparr>), True,
        server_init, error_response ERROR_INVALID_ARGUMENT ''Unknown message type'' 10, 0)"
proof -
  let ?c = "session 7 CLIENT_STATE_CONNECTING"
  let ?ping = "\<lparr>sock_header = RECV_HEADER (header (ping_msg 9)), sock_pending = [], sock_tx = TX_OK\<rparr>"
  let ?status = "\<lparr>sock_header = RECV_HEADER (header (status_request_msg 42)),
                   sock_pending = data (status_request_msg 42), sock_tx = TX_OK\<rparr>"
  let ?compile = "\<lparr>sock_header = RECV_HEADER (header (compile_request_msg (CHR 0x05) 41)),
                    sock_pending = data (compile_request_msg (CHR 0x05) 41), sock_tx = TX_OK\<rparr>"
  let ?unknown = "\<lparr>sock_header = RECV_HEADER (header (unknown_msg 10)), sock_pending = [], sock_tx = TX_OK\<rparr>"
  have c: "cl_state ?c = CLIENT_STATE_CONNECTING" "socket_open ?c" "bytes_sent ?c = 0"
    "bytes_received ?c = 0"
    by (simp_all add: session_def)
  have v: "accept_header h = 0" for h
    by (simp add: accept_header_def)
  have q: "job_queue server_init = []"
    by (simp add: server_init_def)
  have len: "length (data (compile_request_msg (CHR 0x05) 41)) = 2312"
    by (simp add: compile_request_msg_def compile_request_fields)
  have hp: "data_length (header (ping_msg 9)) = 0" "message_type (header (ping_msg 9)) = MSG_PING"
    "correlation_id (header (ping_msg 9)) = 9"
    by (simp_all add: ping_msg_def mk_header_def)
  have hs: "unat (data_length (header (status_request_msg 42))) = 4"
    "message_type (header (status_request_msg 42)) = MSG_STATUS_REQUEST"
    "correlation_id (header (status_request_msg 42)) = 42" "length (data (status_request_msg 42)) = 4"
    by (simp_all add: status_request_msg_def mk_header_def)
  have hc: "unat (data_length (header (compile_request_msg (CHR 0x05) 41))) = 2312"
    "message_type (header (compile_request_msg (CHR 0x05) 41)) = MSG_COMPILE_REQUEST"
    "correlation_id (header (compile_request_msg (CHR 0x05) 41)) = 41"
    by (simp_all add: compile_request_msg_def mk_header_def)
  have hu: "data_length (header (unknown_msg 10)) = 0"
    "message_type (header (unknown_msg 10)) \<notin> {MSG_HELLO, MSG_FILE_UPLOAD_START, MSG_FILE_UPLOAD_CHUNK,
           MSG_FILE_UPLOAD_END, MSG_COMPILE_REQUEST, MSG_STATUS_REQUEST, MSG_RESULT_REQUEST, MSG_PING}"
    "correlation_id (header (unknown_msg 10)) = 10"
    by (simp_all add: unknown_msg_def mk_header_def msg_type_defs)
  have sk: "sock_header ?ping = RECV_HEADER (header (ping_msg 9))" "sock_tx ?ping = TX_OK"
    "sock_header ?status = RECV_HEADER (header (status_request_msg 42))" "sock_tx ?status = TX_OK"
    "sock_header ?compile = RECV_HEADER (header (compile_request_msg (CHR 0x05) 41))" "sock_tx ?compile = TX_OK"
    "sock_header ?unknown = RECV_HEADER (header (unknown_msg 10))" "sock_tx ?unknown = TX_OK"
    by simp_all
  have a1: "unat (data_length (header (ping_msg 9))) \<le> MAX_MESSAGE_SIZE"
    "unat (data_length (header (ping_msg 9))) \<le> length (sock_pending ?ping)"
    "0 = unat (data_length (header (ping_msg 9)))" "[] = take 0 (sock_pending ?ping)"
    "9 = correlation_id (header (ping_msg 9))"
    by (simp_all add: hp)
  note t1 = first_message_other_than_hello
            [where client = ?c and valid = accept_header and mem_msg = True and mem_job = True and now = 50
               and s = server_init and h = "header (ping_msg 9)" and sock = ?ping
               and n = 0 and d = "[]" and corr = 9 and job = "example_job 1 7 0"
               and rcv = "?c\<lparr>bytes_received := bytes_received ?c + 0, last_activity := 50\<rparr>",
             OF c(1) sk(1) v sk(2) a1(1) TrueI a1(2,3,4) refl a1(5)]
  have r1: "client_pollin accept_header True True 50 ?ping server_init ?c
     = (Some (?c\<lparr>last_activity := 50, bytes_sent := 28\<rparr>), True, server_init, pong_response 9, 0)"
    using t1 by (simp add: c hp)
  have a2: "unat (data_length (header (status_request_msg 42))) \<le> MAX_MESSAGE_SIZE"
    "unat (data_length (header (status_request_msg 42))) \<le> length (sock_pending ?status)"
    "4 = unat (data_length (header (status_request_msg 42)))"
    "data (status_request_msg 42) = take 4 (sock_pending ?status)"
    "42 = correlation_id (header (status_request_msg 42))"
    by (simp_all add: hs MAX_MESSAGE_SIZE_def)
  note t2 = first_message_other_than_hello
            [where client = ?c and valid = accept_header and mem_msg = True and mem_job = True and now = 50
               and s = server_init and h = "header (status_request_msg 42)" and sock = ?status
               and n = 4 and d = "data (status_request_msg 42)" and corr = 42 and job = "example_job 1 7 0"
               and rcv = "?c\<lparr>bytes_received := bytes_received ?c + 4, last_activity := 50\<rparr>",
             OF c(1) sk(3) v sk(4) a2(1) TrueI a2(2,3,4) refl a2(5)]
  have r2: "client_pollin accept_header True True 50 ?status server_init ?c
     = (Some (?c\<lparr>bytes_received := 4, last_activity := 50, bytes_sent := 4388\<rparr>), True,
        server_init, error_response ERROR_NOT_FOUND ''Job not found'' 42, 4)"
    using t2 by (simp add: c q hs)
  have a3: "unat (data_length (header (compile_request_msg (CHR 0x05) 41))) \<le> MAX_MESSAGE_SIZE"
    "unat (data_length (header (compile_request_msg (CHR 0x05) 41))) \<le> length (sock_pending ?compile)"
    "2312 = unat (data_length (header (compile_request_msg (CHR 0x05) 41)))"
    "data (compile_request_msg (CHR 0x05) 41) = take 2312 (sock_pending ?compile)"
    "41 = correlation_id (header (compile_request_msg (CHR 0x05) 41))"
    by (simp_all add: hc len MAX_MESSAGE_SIZE_def)
  note t3 = first_message_other_than_hello
            [where client = ?c and valid = accept_header and mem_msg = True and mem_job = True and now = 50
               and s = server_init and h = "header (compile_request_msg (CHR 0x05) 41)" and sock = ?compile
               and n = 2312 and d = "data (compile_request_msg (CHR 0x05) 41)" and corr = 41
               and job = "example_job 1 7 0"
               and rcv = "?c\<lparr>bytes_received := bytes_received ?c + 2312, last_activity := 50\<rparr>",
             OF c(1) sk(5) v sk(6) a3(1) TrueI a3(2,3,4) refl a3(5)]
  have r3: "client_pollin accept_header True True 50 ?compile server_init ?c
     = (Some (?c\<lparr>bytes_received := 2312, last_activity := 50, bytes_sent := 4388\<rparr>), True,
        server_init, error_response ERROR_PERMISSION ''Client not ready'' 41, 2312)"
    using t3 by (simp add: c hc)
  have a4: "unat (data_length (header (unknown_msg 10))) \<le> MAX_MESSAGE_SIZE"
    "unat (data_length (header (unknown_msg 10))) \<le> length (sock_pending ?unknown)"
    "0 = unat (data_length (header (unknown_msg 10)))" "[] = take 0 (sock_pending ?unknown)"
    "10 = correlation_id (header (unknown_msg 10))"
    by (simp_all add: hu(1,3))
  note t4 = first_message_other_than_hello
            [where client = ?c and valid = accept_header and mem_msg = True and mem_job = True and now = 50
               and s = server_init and h = "header (unknown_msg 10)" and sock = ?unknown
               and n = 0 and d = "[]" and corr = 10 and job = "example_job 1 7 0"
               and rcv = "?c\<lparr>bytes_received := bytes_received ?c + 0, last_activity := 50\<rparr>",
             OF c(1) sk(7) v sk(8) a4(1) TrueI a4(2,3,4) refl a4(5)]
  have r4: "client_pollin accept_header True True 50 ?unknown server_init ?c
     = (Some (?c\<lparr>last_activity := 50, bytes_sent := 4388\<rparr>), True,
        server_init, error_response ERROR_INVALID_ARGUMENT ''Unknown message type'' 10, 0)"
    using t4 hu(2) by (simp add: c)
  show ?thesis
    using r1 r2 r3 r4 by (intro conjI)
qed







lemma slow_run_finishes:
  assumes "int n < timeout"
  shows "execute_command_with_timeout (slow_run t0 (int n)) MAX_COMPILER_OUTPUT MAX_COMPILER_OUTPUT timeout
           = Some \<lparr>ret = 0, launched = True, killed = False\<rparr>"
proof -
  have s: "selects (slow_run t0 (int n))
             = map SEL_EXPIRED (map (\<lambda>k. t0 + int k) [1..<Suc n]) @ [SEL_READY True True 8191 8191]"
    by (simp add: slow_run_def)
  have "read_loop (selects (slow_run t0 (int n))) t0 timeout MAX_COMPILER_OUTPUT MAX_COMPILER_OUTPUT 0 0
          = read_loop [SEL_READY True True 8191 8191] t0 timeout MAX_COMPILER_OUTPUT MAX_COMPILER_OUTPUT 0 0"
    unfolding s by (rule read_loop_skip_expired) (use assms in \<open>auto simp: MAX_COMPILER_OUTPUT_def\<close>)
  also have "\<dots> = Some (False, 8191, 8191)"
    by (simp add: MAX_COMPILER_OUTPUT_def read_pipe_def)
  finally show ?thesis
    by (simp add: execute_command_with_timeout_def slow_run_def)
qed

lemma quiet_run_still_running:
  assumes "int n < timeout" "1 < osz"
  shows "execute_command_with_timeout (quiet_run t0 (int n)) osz esz timeout = None"
proof -
  have s: "selects (quiet_run t0 (int n)) = map SEL_EXPIRED (map (\<lambda>k. t0 + int k) [1..<Suc n]) @ []"
    by (simp add: quiet_run_def)
  have "read_loop (selects (quiet_run t0 (int n))) t0 timeout osz esz 0 0
          = read_loop [] t0 timeout osz esz 0 0"
    unfolding s by (rule read_loop_skip_expired) (use assms in auto)
  with assms(2) show ?thesis
    by (simp add: execute_command_with_timeout_def quiet_run_def)
qed




text \<open>
  Claim C8 (the compile step is capped at 60 seconds and the execute step at 30). Evaluation
  at a C job whose compile command is silent for 61 seconds and whose run command is silent
  for 31 seconds before they write and exit with 0: neither is killed, both steps succeed,
  and the worker completes the job. A silent compile command is still running after 299
  seconds and is killed at 300; a silent run command is still running after 59 seconds and is
  killed at 60. The configuration holds \<open>compile_timeout\<close> = 60, which the executor does
  not take.
\<close>

theorem executor_ignores_configured_timeouts:
  "compile_timeout initialize_server = 60 \<and> EXECUTION_TIMEOUT = 30
   \<and> compile_source_code (example_env (slow_run 1000 61) (slow_run 1100 31)) example_cj
       = Some (0, example_cj\<lparr>cj_status := COMPILE_STATUS_COMPILED\<rparr>, [STEP_COMPILE 1])
   \<and> execute_compiled_program (example_env (slow_run 1000 61) (slow_run 1100 31))
         (example_cj\<lparr>cj_status := COMPILE_STATUS_COMPILED\<rparr>)
       = Some (0, example_cj\<lparr>cj_status := COMPILE_STATUS_COMPLETED\<rparr>, [STEP_EXECUTE 1])
   \<and> job_processor_step True (example_env (slow_run 1000 61) (slow_run 1100 31)) [example_job 1 7 990]
       = Some ([], Some ((example_job 1 7 990)\<lparr>process_id := -1, output_file := ''a_output.txt'',
                           error_file := ''a_error.txt''\<rparr>), [STEP_COMPILE 1])
   \<and> compile_source_code (example_env (quiet_run 1000 299) (quiet_run 1300 60)) example_cj = None
   \<and> compile_source_code (example_env (quiet_run 1000 300) (quiet_run 1300 60)) example_cj
       = Some (-1, example_cj\<lparr>cj_status := COMPILE_STATUS_FAILED, cj_compile_exit_code := 124\<rparr>,
               [STEP_COMPILE 1])
   \<and> execute_compiled_program (example_env (quiet_run 1000 300) (quiet_run 1300 59))
         (example_cj\<lparr>cj_status := COMPILE_STATUS_COMPILED\<rparr>) = None
   \<and> execute_compiled_program (example_env (quiet_run 1000 300) (quiet_run 1300 60))
         (example_cj\<lparr>cj_status := COMPILE_STATUS_COMPILED\<rparr>)
       = Some (-1, example_cj\<lparr>cj_status := COMPILE_STATUS_FAILED, cj_exec_exit_code := 124\<rparr>,
               [STEP_EXECUTE 1])"
proof -
  have r: "execute_command_with_timeout (slow_run 1000 61) MAX_COMPILER_OUTPUT MAX_COMPILER_OUTPUT
             MAX_COMPILATION_TIME = Some \<lparr>ret = 0, launched = True, killed = False\<rparr>"
    "execute_command_with_timeout (slow_run 1100 31) MAX_COMPILER_OUTPUT MAX_COMPILER_OUTPUT
             MAX_EXECUTION_TIME = Some \<lparr>ret = 0, launched = True, killed = False\<rparr>"
    "execute_command_with_timeout (quiet_run 1000 299) MAX_COMPILER_OUTPUT MAX_COMPILER_OUTPUT
             MAX_COMPILATION_TIME = None"
    "execute_command_with_timeout (quiet_run 1300 59) MAX_COMPILER_OUTPUT MAX_COMPILER_OUTPUT
             MAX_EXECUTION_TIME = None"
    "execute_command_with_timeout (quiet_run 1300 60) MAX_COMPILER_OUTPUT MAX_COMPILER_OUTPUT
             MAX_EXECUTION_TIME = Some \<lparr>ret = 124, launched = True, killed = True\<rparr>"
    using slow_run_finishes [of 61 MAX_COMPILATION_TIME 1000] slow_run_finishes [of 31 MAX_EXECUTION_TIME 1100]
      quiet_run_still_running [of 299 MAX_COMPILATION_TIME MAX_COMPILER_OUTPUT 1000 MAX_COMPILER_OUTPUT]
      quiet_run_still_running [of 59 MAX_EXECUTION_TIME MAX_COMPILER_OUTPUT 1300 MAX_COMPILER_OUTPUT]
      quiet_run_times_out [of 60 MAX_COMPILER_OUTPUT 1300 MAX_COMPILER_OUTPUT]
    by (simp_all add: MAX_COMPILATION_TIME_def MAX_EXECUTION_TIME_def MAX_COMPILER_OUTPUT_def)
  have b: "build_compile_command (example_env crun erun) (cj\<lparr>cj_compiler_type := COMPILER_C\<rparr>)"
    "build_execute_command (example_env crun erun) (cj\<lparr>cj_compiler_type := COMPILER_C\<rparr>)"
    for crun erun cj
    by (simp_all add: build_compile_command_def build_execute_command_def example_env_def)
  have e: "compile_run (example_env crun erun) = crun" "exec_run (example_env crun erun) = erun"
    "sandbox_ok (example_env crun erun)" "readable (example_env crun erun) ''a''"
    "get_compiler_by_type (registry (example_env crun erun)) COMPILER_C \<noteq> None"
    "comp_alloc (example_env crun erun)"
    for crun erun
    by (simp_all add: example_env_def)
  show ?thesis
    using b [of _ _ "create_compilation_job 1 7"]
    by (simp add: r compile_quiet_300 e initialize_server_def COMPILE_TIMEOUT_def EXECUTION_TIMEOUT_def
          compile_source_code_def execute_compiled_program_def example_cj_def Let_def
          create_compilation_job_def job_processor_step_def process_compilation_job_def run_mode_def
          example_job_def strncpy_str_def snprintf_str_def cut_extension_def c_basename_def
          build_compile_command_def build_execute_command_def COMPILER_C_def example_env_def)
qed

lemma unat_next_id_after: "unat (next_id_after n) = n mod 4294967295 + 1"
proof (induction n)
  case 0
  show ?case by (simp add: next_id_init_def)
next
  case (Suc n)
  let ?s = "next_id_after n"
  show ?case
  proof (cases "?s + 1 = 0")
    case True
    then have "?s = - 1" by (simp add: eq_neg_iff_add_eq_0)
    then have "unat ?s = 4294967295" by (simp add: unsigned_minus_1_eq_mask mask_eq_exp_minus_1)
    with Suc have "Suc (n mod 4294967295) = 4294967295" by simp
    then have "Suc n mod 4294967295 = 0" by (simp add: mod_Suc)
    with True show ?thesis by (simp add: generate_job_id_def Let_def)
  next
    case False
    then have u: "unat (?s + 1) = Suc (unat ?s)" using unatSuc [of ?s] by (simp add: add.commute)
    have "unat ?s \<noteq> 4294967295"
    proof
      assume "unat ?s = 4294967295"
      then have "unat ?s = unat (- 1 :: u32)" by (simp add: unsigned_minus_1_eq_mask mask_eq_exp_minus_1)
      then have "?s = - 1" by (simp only: word_unat_eq_iff)
      with False show False by simp
    qed
    with Suc have "Suc (n mod 4294967295) \<noteq> 4294967295" by simp
    then have "Suc n mod 4294967295 = Suc (n mod 4294967295)" by (simp add: mod_Suc)
    with False u Suc show ?thesis by (simp add: generate_job_id_def Let_def)
  qed
qed

lemma nth_job_id_unat: "unat (nth_job_id n) = n mod 4294967295 + 1"
  by (simp add: nth_job_id_def generate_job_id_def Let_def unat_next_id_after)

text \<open>
  Claim C9, as stated, fails: the id 1 of the first call of \<open>generate_job_id\<close> is handed
  out again by the call that follows 4294967295 earlier ones.
\<close>

theorem job_id_reused_after_wrap:
  "nth_job_id 0 = 1 \<and> nth_job_id 4294967295 = 1"
proof -
  have "unat (nth_job_id 0) = unat (1 :: u32)" "unat (nth_job_id 4294967295) = unat (1 :: u32)"
    unfolding nth_job_id_unat by simp_all
  then show ?thesis by (simp only: word_unat_eq_iff)
qed

text \<open>
  Claim C9, amended. Every id handed out is non-zero; the ids of the first 4294967295 calls
  are strictly increasing; and among any 4294967295 consecutive calls no id is handed out
  twice.
\<close>

theorem job_ids_within_one_cycle:
  "nth_job_id n \<noteq> 0
   \<and> (i < j \<and> j < 4294967295 \<longrightarrow> nth_job_id i < nth_job_id j)
   \<and> (i < j \<and> j < i + 4294967295 \<longrightarrow> nth_job_id i \<noteq> nth_job_id j)"
proof (intro conjI impI)
  show "nth_job_id n \<noteq> 0"
    using nth_job_id_unat [of n] by (auto simp: unat_eq_zero)
next
  assume "i < j \<and> j < 4294967295"
  then show "nth_job_id i < nth_job_id j"
    by (simp add: word_less_nat_alt nth_job_id_unat)
next
  assume a: "i < j \<and> j < i + 4294967295"
  show "nth_job_id i \<noteq> nth_job_id j"
  proof
    assume "nth_job_id i = nth_job_id j"
    then have "i mod 4294967295 = j mod 4294967295"
      using nth_job_id_unat [of i] nth_job_id_unat [of j] by simp
    with a have "(4294967295::nat) dvd j - i"
      using mod_eq_dvd_iff_nat [of i j 4294967295] by simp
    moreover from a have "0 < j - i" "j - i < 4294967295" by linarith+
    ultimately show False using nat_dvd_not_less by blast
  qed
qed

text \<open>The amended property of C9 at the first two calls.\<close>

theorem job_ids_within_one_cycle_witness:
  "nth_job_id 0 \<noteq> 0 \<and> nth_job_id 0 < nth_job_id 1 \<and> nth_job_id 0 \<noteq> nth_job_id 1"
  using job_ids_within_one_cycle [of 0 0 1] by simp

end
